theory Spec2Isabelle
  imports Complex_Main
begin

section \<open>Data model of \<^verbatim>\<open>modules/TreeWriter.cc\<close>\<close>

text \<open>
  The candidates of one event live in a store indexed by handles: a \<^verbatim>\<open>Candidate*\<close> is a
  \<open>ref\<close>, a nullable pointer is a \<open>ref option\<close>, and the event is a function from handles
  to candidates.  A \<^verbatim>\<open>TObjArray\<close> of candidates is the list of its entries in index order
  (upstream modules fill it with \<^verbatim>\<open>Add\<close>, so it has no holes and \<^verbatim>\<open>GetEntriesFast\<close> is its
  length).  The same handle may occur in many arrays: the graph is shared, and nothing in
  this module writes to a candidate.

  \<^verbatim>\<open>Double_t\<close> and \<^verbatim>\<open>Float_t\<close> are modelled by \<open>real\<close>: rounding, infinities and NaN are
  outside the model.  Where the source divides by a value that can be zero, the model
  writes that case out.
\<close>

type_synonym ref = nat

record TLorentzVector =
  fX :: real
  fY :: real
  fZ :: real
  fE :: real

text \<open>\<^verbatim>\<open>TLorentzVector::operator-()\<close>: every component negated.\<close>

definition neg :: "TLorentzVector \<Rightarrow> TLorentzVector" where
  "neg v = \<lparr>fX = - fX v, fY = - fY v, fZ = - fZ v, fE = - fE v\<rparr>"

record SecondaryVertexTrack =
  weight :: real
  d0 :: real
  z0 :: real
  d0err :: real
  z0err :: real
  momentum :: real
  dphi :: real
  deta :: real

record SecondaryVertex =
  sv_X :: real
  sv_Y :: real
  sv_Z :: real
  Lxy :: real
  Lsig :: real
  decayLengthVariance :: real
  nTracks :: int
  eFrac :: real
  mass :: real
  config :: int
  tracks_along_jet :: "SecondaryVertexTrack list"

text \<open>
  The fields of \<^verbatim>\<open>Candidate\<close> that \<^verbatim>\<open>TreeWriter.cc\<close> reads.  \<open>Candidates\<close>, \<open>Subjets\<close> and
  \<open>Tracks\<close> are the arrays behind \<^verbatim>\<open>GetCandidates()\<close>, \<^verbatim>\<open>GetSubjets()\<close> and \<^verbatim>\<open>GetTracks()\<close>.
  The jet fields \<^verbatim>\<open>hlSvx\<close>, \<^verbatim>\<open>mlSvx\<close> and \<^verbatim>\<open>hlTrk\<close> are copied by overloads of \<^verbatim>\<open>copy\<close> that
  this file does not define; they are left out of the model.
\<close>

record Candidate =
  UniqueID :: nat
  PID :: int
  Status :: int
  IsPU :: int
  M1 :: int
  M2 :: int
  D1 :: int
  D2 :: int
  Charge :: int
  Mass :: real
  Momentum :: TLorentzVector
  Position :: TLorentzVector
  Dxy :: real
  SDxy :: real
  Xd :: real
  Yd :: real
  Zd :: real
  trkPar :: "real list"
  trkCov :: "real list"
  Eem :: real
  Ehad :: real
  Edges :: "real list"
  NTimeHits :: int
  IsolationVar :: real
  IsolationVarRhoCorr :: real
  SumPtCharged :: real
  SumPtNeutral :: real
  SumPtChargedPU :: real
  SumPt :: real
  Area :: TLorentzVector
  DeltaEta :: real
  DeltaPhi :: real
  Flavor :: int
  FlavorAlgo :: int
  FlavorPhys :: int
  BTag :: int
  BTagAlgo :: int
  BTagPhys :: int
  primaryVertexTracks :: "SecondaryVertexTrack list"
  secondaryVertices :: "SecondaryVertex list"
  hlSecVxTracks :: "SecondaryVertexTrack list"
  truthVertices :: "TLorentzVector list"
  TauTag :: int
  NCharged :: int
  NNeutrals :: int
  Beta :: real
  BetaStar :: real
  MeanSqDeltaR :: real
  PTD :: real
  NSubJetsTrimmed :: int
  NSubJetsPruned :: int
  NSubJetsSoftDropped :: int
  FracPt :: "real list"
  Tau :: "real list"
  TrimmedP4 :: "TLorentzVector list"
  PrunedP4 :: "TLorentzVector list"
  SoftDroppedP4 :: "TLorentzVector list"
  Candidates :: "ref list"
  Subjets :: "ref list"
  Tracks :: "ref list"

type_synonym event = "ref \<Rightarrow> Candidate"

subsection \<open>Output records\<close>

text \<open>
  One record per output class, holding the fields the projector assigns.  Several classes
  use the same field names (\<^verbatim>\<open>Eta\<close>, \<^verbatim>\<open>Phi\<close>, \<^verbatim>\<open>PT\<close>, \<^verbatim>\<open>T\<close>), so every field carries its class
  as a prefix.  A \<^verbatim>\<open>TRef\<close> is a \<open>ref option\<close> and a \<^verbatim>\<open>TRefArray\<close> a \<open>ref list\<close>.
\<close>

record GenParticle =
  gen_UniqueID :: nat
  gen_PID :: int
  gen_Status :: int
  gen_IsPU :: int
  gen_M1 :: int
  gen_M2 :: int
  gen_D1 :: int
  gen_D2 :: int
  gen_Charge :: int
  gen_Mass :: real
  gen_E :: real
  gen_Px :: real
  gen_Py :: real
  gen_Pz :: real
  gen_Eta :: real
  gen_Phi :: real
  gen_PT :: real
  gen_Rapidity :: real
  gen_X :: real
  gen_Y :: real
  gen_Z :: real
  gen_T :: real

record Vertex =
  vtx_X :: real
  vtx_Y :: real
  vtx_Z :: real
  vtx_T :: real

record Track =
  trk_UniqueID :: nat
  trk_PID :: int
  trk_Charge :: int
  trk_EtaOuter :: real
  trk_PhiOuter :: real
  trk_XOuter :: real
  trk_YOuter :: real
  trk_ZOuter :: real
  trk_TOuter :: real
  trk_Dxy :: real
  trk_SDxy :: real
  trk_Xd :: real
  trk_Yd :: real
  trk_Zd :: real
  trk_trkPar :: "real list"
  trk_trkCov :: "real list"
  trk_Eta :: real
  trk_Phi :: real
  trk_PT :: real
  trk_X :: real
  trk_Y :: real
  trk_Z :: real
  trk_T :: real
  trk_Particle :: "ref option"

record Tower =
  twr_UniqueID :: nat
  twr_Eta :: real
  twr_Phi :: real
  twr_ET :: real
  twr_E :: real
  twr_Eem :: real
  twr_Ehad :: real
  twr_Edges :: "real list"
  twr_T :: real
  twr_NTimeHits :: int
  twr_Particles :: "ref list"

record Photon =
  pho_Eta :: real
  pho_Phi :: real
  pho_PT :: real
  pho_E :: real
  pho_T :: real
  pho_IsolationVar :: real
  pho_IsolationVarRhoCorr :: real
  pho_SumPtCharged :: real
  pho_SumPtNeutral :: real
  pho_SumPtChargedPU :: real
  pho_SumPt :: real
  pho_EhadOverEem :: real
  pho_Particles :: "ref list"

record Electron =
  ele_Eta :: real
  ele_Phi :: real
  ele_PT :: real
  ele_T :: real
  ele_IsolationVar :: real
  ele_IsolationVarRhoCorr :: real
  ele_SumPtCharged :: real
  ele_SumPtNeutral :: real
  ele_SumPtChargedPU :: real
  ele_SumPt :: real
  ele_Charge :: int
  ele_EhadOverEem :: real
  ele_Particle :: "ref option"

record Muon =
  mu_UniqueID :: nat
  mu_Eta :: real
  mu_Phi :: real
  mu_PT :: real
  mu_T :: real
  mu_IsolationVar :: real
  mu_IsolationVarRhoCorr :: real
  mu_SumPtCharged :: real
  mu_SumPtNeutral :: real
  mu_SumPtChargedPU :: real
  mu_SumPt :: real
  mu_Charge :: int
  mu_Particle :: "ref option"

record TSecondaryVertexTrack =
  t_weight :: real
  t_d0 :: real
  t_z0 :: real
  t_d0err :: real
  t_z0err :: real
  t_momentum :: real
  t_dphi :: real
  t_deta :: real

record TSecondaryVertex =
  t_x :: real
  t_y :: real
  t_z :: real
  t_Lxy :: real
  t_Lsig :: real
  t_decayLengthVariance :: real
  t_nTracks :: int
  t_eFrac :: real
  t_mass :: real
  t_config :: int
  t_tracks :: "TSecondaryVertexTrack list"

record Jet =
  jet_Eta :: real
  jet_Phi :: real
  jet_PT :: real
  jet_T :: real
  jet_Mass :: real
  jet_Area :: TLorentzVector
  jet_DeltaEta :: real
  jet_DeltaPhi :: real
  jet_Flavor :: int
  jet_FlavorAlgo :: int
  jet_FlavorPhys :: int
  jet_BTag :: int
  jet_BTagAlgo :: int
  jet_BTagPhys :: int
  jet_PrimaryVertexTracks :: "TSecondaryVertexTrack list"
  jet_SecondaryVertices :: "TSecondaryVertex list"
  jet_HLSecondaryVertexTracks :: "TSecondaryVertexTrack list"
  jet_TruthVertices :: "TLorentzVector list"
  jet_TauTag :: int
  jet_Charge :: int
  jet_Constituents :: "ref list"
  jet_EhadOverEem :: real
  jet_Subjets :: "ref list"
  jet_Tracks :: "ref list"
  jet_NCharged :: int
  jet_NNeutrals :: int
  jet_Beta :: real
  jet_BetaStar :: real
  jet_MeanSqDeltaR :: real
  jet_PTD :: real
  jet_NSubJetsTrimmed :: int
  jet_NSubJetsPruned :: int
  jet_NSubJetsSoftDropped :: int
  jet_FracPt :: "real list"
  jet_Tau :: "real list"
  jet_TrimmedP4 :: "TLorentzVector list"
  jet_PrunedP4 :: "TLorentzVector list"
  jet_SoftDroppedP4 :: "TLorentzVector list"
  jet_Particles :: "ref list"

record MissingET =
  met_Eta :: real
  met_Phi :: real
  met_MET :: real

record ScalarHT =
  ht_HT :: real

record Rho =
  rho_Rho :: real
  rho_Edges :: "real list"

record Weight =
  w_Weight :: real

record HectorHit =
  hit_E :: real
  hit_Tx :: real
  hit_Ty :: real
  hit_T :: real
  hit_X :: real
  hit_Y :: real
  hit_S :: real
  hit_Particle :: "ref option"

text \<open>
  An \<^verbatim>\<open>ExRootTreeBranch\<close> holds the entries of one class; \<^verbatim>\<open>NewEntry()\<close> appends one at the
  end.  The branch is the list of its entries, each tagged with its class.
\<close>

datatype entry =
    EGenParticle GenParticle
  | EVertex Vertex
  | ETrack Track
  | ETower Tower
  | EPhoton Photon
  | EElectron Electron
  | EMuon Muon
  | EJet Jet
  | EMissingET MissingET
  | EScalarHT ScalarHT
  | ERho Rho
  | EWeight Weight
  | EHectorHit HectorHit

subsection \<open>External collaborators\<close>

text \<open>
  The kinematic accessors of \<^verbatim>\<open>TLorentzVector\<close>, \<^verbatim>\<open>TObjArray::Sort\<close> (which orders an array
  by \<^verbatim>\<open>Candidate::Compare\<close>) and the indices \<^verbatim>\<open>TrackParam::Z0\<close>, \<^verbatim>\<open>TrackParam::D0\<close> are
  declared outside this file.  They are parameters of the model.
\<close>

record externals =
  Pt :: "TLorentzVector \<Rightarrow> real"
  CosTheta :: "TLorentzVector \<Rightarrow> real"
  Eta :: "TLorentzVector \<Rightarrow> real"
  Rapidity :: "TLorentzVector \<Rightarrow> real"
  Phi :: "TLorentzVector \<Rightarrow> real"
  M :: "TLorentzVector \<Rightarrow> real"
  Sort :: "event \<Rightarrow> ref list \<Rightarrow> ref list"
  Z0 :: nat
  D0 :: nat

text \<open>\<^verbatim>\<open>const Double_t c_light = 2.99792458E8\<close>, declared in every projector that converts a time.\<close>

definition c_light :: real where
  "c_light = 299792458"

subsection \<open>Array primitives\<close>

text \<open>\<^verbatim>\<open>TObjArray::At(0)\<close>: the first entry, null when the array has none.\<close>

definition At0 :: "ref list \<Rightarrow> ref option" where
  "At0 array = (case array of [] \<Rightarrow> None | r # _ \<Rightarrow> Some r)"

text \<open>\<^verbatim>\<open>TRefArray::Add\<close>: appends the object at the end; a null pointer is not stored.\<close>

definition Add :: "ref list \<Rightarrow> ref option \<Rightarrow> ref list" where
  "Add array obj = (case obj of None \<Rightarrow> array | Some r \<Rightarrow> array @ [r])"

section \<open>Constituent flattening\<close>

text \<open>
  \<^verbatim>\<open>TreeWriter::FillParticles\<close>.  The inner loop runs over \<^verbatim>\<open>it2\<close>, the iterator made from
  the child's own array before \<^verbatim>\<open>candidate\<close> is moved to the child's first entry.
\<close>

fun FillParticles_it2 :: "event \<Rightarrow> ref list \<Rightarrow> ref list \<Rightarrow> ref list" where
  "FillParticles_it2 ev [] array = array"
| "FillParticles_it2 ev (candidate # it2) array =
     FillParticles_it2 ev it2 (Add array (At0 (Candidates (ev candidate))))"

fun FillParticles_it1 :: "event \<Rightarrow> ref list \<Rightarrow> ref list \<Rightarrow> ref list" where
  "FillParticles_it1 ev [] array = array"
| "FillParticles_it1 ev (candidate # it1) array =
     (let it2 = Candidates (ev candidate) in
      case Candidates (ev candidate) of
        [] \<Rightarrow> FillParticles_it1 ev it1 (Add array (Some candidate))
      | first # _ \<Rightarrow>
          (case Candidates (ev first) of
             [] \<Rightarrow> FillParticles_it1 ev it1 (Add array (Some first))
           | _ # _ \<Rightarrow> FillParticles_it1 ev it1 (FillParticles_it2 ev it2 array)))"

definition FillParticles :: "event \<Rightarrow> ref \<Rightarrow> ref list \<Rightarrow> ref list" where
  "FillParticles ev candidate array =
     (let array = [] in FillParticles_it1 ev (Candidates (ev candidate)) array)"

section \<open>Per-class projectors\<close>

text \<open>
  Every projector is a loop over its input array.  The loop body is a function
  \<open>Process*_entry\<close> giving the entry that the body fills after \<^verbatim>\<open>branch->NewEntry()\<close>; the
  loop \<open>Process*_loop\<close> walks the iterator and appends to the branch.  \<^verbatim>\<open>position.T()\<close> and
  \<^verbatim>\<open>momentum.E()\<close> read the fourth component, \<^verbatim>\<open>Pz()\<close> and \<^verbatim>\<open>Z()\<close> the third.
\<close>

definition ProcessParticles_entry :: "externals \<Rightarrow> event \<Rightarrow> ref \<Rightarrow> GenParticle" where
  "ProcessParticles_entry ext ev r =
     (let candidate = ev r;
          momentum = Momentum candidate;
          position = Position candidate;
          pt = Pt ext momentum;
          cosTheta = \<bar>CosTheta ext momentum\<bar>;
          signPz = (if fZ momentum \<ge> 0.0 then 1.0 else - 1.0);
          eta = (if cosTheta = 1.0 then signPz * 999.9 else Eta ext momentum);
          rapidity = (if cosTheta = 1.0 then signPz * 999.9 else Rapidity ext momentum)
      in \<lparr>gen_UniqueID = UniqueID candidate,
          gen_PID = PID candidate,
          gen_Status = Status candidate,
          gen_IsPU = IsPU candidate,
          gen_M1 = M1 candidate,
          gen_M2 = M2 candidate,
          gen_D1 = D1 candidate,
          gen_D2 = D2 candidate,
          gen_Charge = Charge candidate,
          gen_Mass = Mass candidate,
          gen_E = fE momentum,
          gen_Px = fX momentum,
          gen_Py = fY momentum,
          gen_Pz = fZ momentum,
          gen_Eta = eta,
          gen_Phi = Phi ext momentum,
          gen_PT = pt,
          gen_Rapidity = rapidity,
          gen_X = fX position,
          gen_Y = fY position,
          gen_Z = fZ position,
          gen_T = fE position * 0.001 / c_light\<rparr>)"

fun ProcessParticles_loop :: "externals \<Rightarrow> event \<Rightarrow> ref list \<Rightarrow> entry list \<Rightarrow> entry list" where
  "ProcessParticles_loop ext ev [] branch = branch"
| "ProcessParticles_loop ext ev (candidate # iterator) branch =
     ProcessParticles_loop ext ev iterator
       (branch @ [EGenParticle (ProcessParticles_entry ext ev candidate)])"

definition ProcessParticles :: "externals \<Rightarrow> event \<Rightarrow> entry list \<Rightarrow> ref list \<Rightarrow> entry list" where
  "ProcessParticles ext ev branch array = ProcessParticles_loop ext ev array branch"

definition ProcessVertices_entry :: "event \<Rightarrow> ref \<Rightarrow> Vertex" where
  "ProcessVertices_entry ev r =
     (let candidate = ev r;
          position = Position candidate
      in \<lparr>vtx_X = fX position,
          vtx_Y = fY position,
          vtx_Z = fZ position,
          vtx_T = fE position * 0.001 / c_light\<rparr>)"

fun ProcessVertices_loop :: "event \<Rightarrow> ref list \<Rightarrow> entry list \<Rightarrow> entry list" where
  "ProcessVertices_loop ev [] branch = branch"
| "ProcessVertices_loop ev (candidate # iterator) branch =
     ProcessVertices_loop ev iterator (branch @ [EVertex (ProcessVertices_entry ev candidate)])"

definition ProcessVertices :: "externals \<Rightarrow> event \<Rightarrow> entry list \<Rightarrow> ref list \<Rightarrow> entry list" where
  "ProcessVertices ext ev branch array = ProcessVertices_loop ev array branch"

subsection \<open>Tracks\<close>

text \<open>
  The track projector can stop the program: \<^verbatim>\<open>assert(check_d0_z0(entry))\<close> aborts when the
  check fails, and \<^verbatim>\<open>particle->Position\<close> reads through the pointer that \<^verbatim>\<open>At(0)\<close> returned,
  which is null for a track without entries.
\<close>

datatype error = AssertionFailed | NullPointer

text \<open>
  \<^verbatim>\<open>compare\<close>, without its message on \<^verbatim>\<open>std::cerr\<close>.  When \<^verbatim>\<open>quant1\<close> is zero and the
  difference is not below \<open>1e-15\<close>, the quotient \<^verbatim>\<open>diff / quant1\<close> of the source is infinite
  and exceeds the relative bound.
\<close>

definition compare :: "real \<Rightarrow> real \<Rightarrow> bool" where
  "compare quant1 quant2 =
     (let diff = quant1 - quant2 in
      if \<bar>diff\<bar> < 1 / 10 ^ 15 then True
      else if quant1 = 0 then False
      else (let rel_diff = diff / quant1 in
            if \<bar>rel_diff\<bar> > 0.000000001 then False else True))"

definition check_d0_z0 :: "externals \<Rightarrow> Track \<Rightarrow> bool" where
  "check_d0_z0 ext track =
     (if \<not> compare (trk_Zd track) (trk_trkPar track ! Z0 ext) then False
      else if \<not> compare (trk_Dxy track) (trk_trkPar track ! D0 ext) then False
      else True)"

definition ProcessTracks_entry :: "externals \<Rightarrow> event \<Rightarrow> ref \<Rightarrow> error + Track" where
  "ProcessTracks_entry ext ev r =
     (let candidate = ev r;
          position = Position candidate;
          cosTheta = \<bar>CosTheta ext position\<bar>;
          signz = (if fZ position \<ge> 0.0 then 1.0 else - 1.0);
          eta = (if cosTheta = 1.0 then signz * 999.9 else Eta ext position);
          rapidity = (if cosTheta = 1.0 then signz * 999.9 else Rapidity ext position);
          entry = \<lparr>trk_UniqueID = UniqueID candidate,
                   trk_PID = PID candidate,
                   trk_Charge = Charge candidate,
                   trk_EtaOuter = eta,
                   trk_PhiOuter = Phi ext position,
                   trk_XOuter = fX position,
                   trk_YOuter = fY position,
                   trk_ZOuter = fZ position,
                   trk_TOuter = fE position * 0.001 / c_light,
                   trk_Dxy = Dxy candidate,
                   trk_SDxy = SDxy candidate,
                   trk_Xd = Xd candidate,
                   trk_Yd = Yd candidate,
                   trk_Zd = Zd candidate,
                   trk_trkPar = map (\<lambda>i. trkPar candidate ! i) [0..<5],
                   trk_trkCov = map (\<lambda>i. trkCov candidate ! i) [0..<15],
                   trk_Eta = 0, trk_Phi = 0, trk_PT = 0,
                   trk_X = 0, trk_Y = 0, trk_Z = 0, trk_T = 0,
                   trk_Particle = None\<rparr>
      in if \<not> check_d0_z0 ext entry then Inl AssertionFailed
         else
           (let momentum = Momentum candidate;
                pt = Pt ext momentum;
                cosTheta = \<bar>CosTheta ext momentum\<bar>;
                signz = (if fZ momentum \<ge> 0.0 then 1.0 else - 1.0);
                eta = (if cosTheta = 1.0 then signz * 999.9 else Eta ext momentum);
                rapidity = (if cosTheta = 1.0 then signz * 999.9 else Rapidity ext momentum)
            in case At0 (Candidates candidate) of
                 None \<Rightarrow> Inl NullPointer
               | Some particle \<Rightarrow>
                   (let initialPosition = Position (ev particle)
                    in Inr (entry\<lparr>trk_Eta := eta,
                                  trk_Phi := Phi ext momentum,
                                  trk_PT := pt,
                                  trk_X := fX initialPosition,
                                  trk_Y := fY initialPosition,
                                  trk_Z := fZ initialPosition,
                                  trk_T := fE initialPosition * 0.001 / c_light,
                                  trk_Particle := Some particle\<rparr>))))"

fun ProcessTracks_loop ::
  "externals \<Rightarrow> event \<Rightarrow> ref list \<Rightarrow> entry list \<Rightarrow> error + entry list" where
  "ProcessTracks_loop ext ev [] branch = Inr branch"
| "ProcessTracks_loop ext ev (candidate # iterator) branch =
     (case ProcessTracks_entry ext ev candidate of
        Inl e \<Rightarrow> Inl e
      | Inr entry \<Rightarrow> ProcessTracks_loop ext ev iterator (branch @ [ETrack entry]))"

definition ProcessTracks ::
  "externals \<Rightarrow> event \<Rightarrow> entry list \<Rightarrow> ref list \<Rightarrow> error + entry list" where
  "ProcessTracks ext ev branch array = ProcessTracks_loop ext ev array branch"

subsection \<open>Towers, photons, electrons, muons\<close>

definition ProcessTowers_entry :: "externals \<Rightarrow> event \<Rightarrow> ref \<Rightarrow> Tower" where
  "ProcessTowers_entry ext ev r =
     (let candidate = ev r;
          momentum = Momentum candidate;
          position = Position candidate;
          pt = Pt ext momentum;
          cosTheta = \<bar>CosTheta ext momentum\<bar>;
          signPz = (if fZ momentum \<ge> 0.0 then 1.0 else - 1.0);
          eta = (if cosTheta = 1.0 then signPz * 999.9 else Eta ext momentum);
          rapidity = (if cosTheta = 1.0 then signPz * 999.9 else Rapidity ext momentum)
      in \<lparr>twr_UniqueID = UniqueID candidate,
          twr_Eta = eta,
          twr_Phi = Phi ext momentum,
          twr_ET = pt,
          twr_E = fE momentum,
          twr_Eem = Eem candidate,
          twr_Ehad = Ehad candidate,
          twr_Edges = [Edges candidate ! 0, Edges candidate ! 1,
                       Edges candidate ! 2, Edges candidate ! 3],
          twr_T = fE position * 0.001 / c_light,
          twr_NTimeHits = NTimeHits candidate,
          twr_Particles = FillParticles ev r []\<rparr>)"

fun ProcessTowers_loop :: "externals \<Rightarrow> event \<Rightarrow> ref list \<Rightarrow> entry list \<Rightarrow> entry list" where
  "ProcessTowers_loop ext ev [] branch = branch"
| "ProcessTowers_loop ext ev (candidate # iterator) branch =
     ProcessTowers_loop ext ev iterator (branch @ [ETower (ProcessTowers_entry ext ev candidate)])"

definition ProcessTowers :: "externals \<Rightarrow> event \<Rightarrow> entry list \<Rightarrow> ref list \<Rightarrow> entry list" where
  "ProcessTowers ext ev branch array = ProcessTowers_loop ext ev array branch"

definition ProcessPhotons_entry :: "externals \<Rightarrow> event \<Rightarrow> ref \<Rightarrow> Photon" where
  "ProcessPhotons_entry ext ev r =
     (let candidate = ev r;
          momentum = Momentum candidate;
          position = Position candidate;
          pt = Pt ext momentum;
          cosTheta = \<bar>CosTheta ext momentum\<bar>;
          signPz = (if fZ momentum \<ge> 0.0 then 1.0 else - 1.0);
          eta = (if cosTheta = 1.0 then signPz * 999.9 else Eta ext momentum);
          rapidity = (if cosTheta = 1.0 then signPz * 999.9 else Rapidity ext momentum)
      in \<lparr>pho_Eta = eta,
          pho_Phi = Phi ext momentum,
          pho_PT = pt,
          pho_E = fE momentum,
          pho_T = fE position * 0.001 / c_light,
          pho_IsolationVar = IsolationVar candidate,
          pho_IsolationVarRhoCorr = IsolationVarRhoCorr candidate,
          pho_SumPtCharged = SumPtCharged candidate,
          pho_SumPtNeutral = SumPtNeutral candidate,
          pho_SumPtChargedPU = SumPtChargedPU candidate,
          pho_SumPt = SumPt candidate,
          pho_EhadOverEem =
            (if Eem candidate > 0.0 then Ehad candidate / Eem candidate else 999.9),
          pho_Particles = FillParticles ev r []\<rparr>)"

fun ProcessPhotons_loop :: "externals \<Rightarrow> event \<Rightarrow> ref list \<Rightarrow> entry list \<Rightarrow> entry list" where
  "ProcessPhotons_loop ext ev [] branch = branch"
| "ProcessPhotons_loop ext ev (candidate # iterator) branch =
     ProcessPhotons_loop ext ev iterator (branch @ [EPhoton (ProcessPhotons_entry ext ev candidate)])"

text \<open>
  \<^verbatim>\<open>array->Sort()\<close> reorders the input array in place, so the sorting projectors return
  the array with the branch.
\<close>

definition ProcessPhotons ::
  "externals \<Rightarrow> event \<Rightarrow> entry list \<Rightarrow> ref list \<Rightarrow> entry list \<times> ref list" where
  "ProcessPhotons ext ev branch array =
     (let array = Sort ext ev array in (ProcessPhotons_loop ext ev array branch, array))"

definition ProcessElectrons_entry :: "externals \<Rightarrow> event \<Rightarrow> ref \<Rightarrow> Electron" where
  "ProcessElectrons_entry ext ev r =
     (let candidate = ev r;
          momentum = Momentum candidate;
          position = Position candidate;
          pt = Pt ext momentum;
          cosTheta = \<bar>CosTheta ext momentum\<bar>;
          signPz = (if fZ momentum \<ge> 0.0 then 1.0 else - 1.0);
          eta = (if cosTheta = 1.0 then signPz * 999.9 else Eta ext momentum);
          rapidity = (if cosTheta = 1.0 then signPz * 999.9 else Rapidity ext momentum)
      in \<lparr>ele_Eta = eta,
          ele_Phi = Phi ext momentum,
          ele_PT = pt,
          ele_T = fE position * 0.001 / c_light,
          ele_IsolationVar = IsolationVar candidate,
          ele_IsolationVarRhoCorr = IsolationVarRhoCorr candidate,
          ele_SumPtCharged = SumPtCharged candidate,
          ele_SumPtNeutral = SumPtNeutral candidate,
          ele_SumPtChargedPU = SumPtChargedPU candidate,
          ele_SumPt = SumPt candidate,
          ele_Charge = Charge candidate,
          ele_EhadOverEem = 0.0,
          ele_Particle = At0 (Candidates candidate)\<rparr>)"

fun ProcessElectrons_loop :: "externals \<Rightarrow> event \<Rightarrow> ref list \<Rightarrow> entry list \<Rightarrow> entry list" where
  "ProcessElectrons_loop ext ev [] branch = branch"
| "ProcessElectrons_loop ext ev (candidate # iterator) branch =
     ProcessElectrons_loop ext ev iterator
       (branch @ [EElectron (ProcessElectrons_entry ext ev candidate)])"

definition ProcessElectrons ::
  "externals \<Rightarrow> event \<Rightarrow> entry list \<Rightarrow> ref list \<Rightarrow> entry list \<times> ref list" where
  "ProcessElectrons ext ev branch array =
     (let array = Sort ext ev array in (ProcessElectrons_loop ext ev array branch, array))"

definition ProcessMuons_entry :: "externals \<Rightarrow> event \<Rightarrow> ref \<Rightarrow> Muon" where
  "ProcessMuons_entry ext ev r =
     (let candidate = ev r;
          momentum = Momentum candidate;
          position = Position candidate;
          pt = Pt ext momentum;
          cosTheta = \<bar>CosTheta ext momentum\<bar>;
          signPz = (if fZ momentum \<ge> 0.0 then 1.0 else - 1.0);
          eta = (if cosTheta = 1.0 then signPz * 999.9 else Eta ext momentum);
          rapidity = (if cosTheta = 1.0 then signPz * 999.9 else Rapidity ext momentum)
      in \<lparr>mu_UniqueID = UniqueID candidate,
          mu_Eta = eta,
          mu_Phi = Phi ext momentum,
          mu_PT = pt,
          mu_T = fE position * 0.001 / c_light,
          mu_IsolationVar = IsolationVar candidate,
          mu_IsolationVarRhoCorr = IsolationVarRhoCorr candidate,
          mu_SumPtCharged = SumPtCharged candidate,
          mu_SumPtNeutral = SumPtNeutral candidate,
          mu_SumPtChargedPU = SumPtChargedPU candidate,
          mu_SumPt = SumPt candidate,
          mu_Charge = Charge candidate,
          mu_Particle = At0 (Candidates candidate)\<rparr>)"

fun ProcessMuons_loop :: "externals \<Rightarrow> event \<Rightarrow> ref list \<Rightarrow> entry list \<Rightarrow> entry list" where
  "ProcessMuons_loop ext ev [] branch = branch"
| "ProcessMuons_loop ext ev (candidate # iterator) branch =
     ProcessMuons_loop ext ev iterator (branch @ [EMuon (ProcessMuons_entry ext ev candidate)])"

definition ProcessMuons ::
  "externals \<Rightarrow> event \<Rightarrow> entry list \<Rightarrow> ref list \<Rightarrow> entry list \<times> ref list" where
  "ProcessMuons ext ev branch array =
     (let array = Sort ext ev array in (ProcessMuons_loop ext ev array branch, array))"

subsection \<open>Jets\<close>

text \<open>\<^verbatim>\<open>copy(const SecondaryVertexTrack&, TSecondaryVertexTrack&)\<close>.\<close>

definition copy :: "SecondaryVertexTrack \<Rightarrow> TSecondaryVertexTrack" where
  "copy vxtrk =
     \<lparr>t_weight = weight vxtrk,
      t_d0 = d0 vxtrk,
      t_z0 = z0 vxtrk,
      t_d0err = d0err vxtrk,
      t_z0err = z0err vxtrk,
      t_momentum = momentum vxtrk,
      t_dphi = dphi vxtrk,
      t_deta = deta vxtrk\<rparr>"

definition copy_vertex :: "SecondaryVertex \<Rightarrow> TSecondaryVertex" where
  "copy_vertex vx =
     \<lparr>t_x = sv_X vx,
      t_y = sv_Y vx,
      t_z = sv_Z vx,
      t_Lxy = Lxy vx,
      t_Lsig = Lsig vx,
      t_decayLengthVariance = decayLengthVariance vx,
      t_nTracks = nTracks vx,
      t_eFrac = eFrac vx,
      t_mass = mass vx,
      t_config = config vx,
      t_tracks = map copy (tracks_along_jet vx)\<rparr>"

text \<open>
  The loop over \<^verbatim>\<open>itConstituents\<close>: it fills \<^verbatim>\<open>entry->Constituents\<close> and accumulates
  \<^verbatim>\<open>ecalEnergy\<close> and \<^verbatim>\<open>hcalEnergy\<close>.
\<close>

fun ProcessJets_itConstituents ::
  "event \<Rightarrow> ref list \<Rightarrow> ref list \<times> real \<times> real \<Rightarrow> ref list \<times> real \<times> real" where
  "ProcessJets_itConstituents ev [] acc = acc"
| "ProcessJets_itConstituents ev (constituent # it) (Constituents, ecalEnergy, hcalEnergy) =
     ProcessJets_itConstituents ev it
       (Add Constituents (Some constituent),
        ecalEnergy + Eem (ev constituent),
        hcalEnergy + Ehad (ev constituent))"

text \<open>The loops over \<^verbatim>\<open>itSubjets\<close> and \<^verbatim>\<open>itTracks\<close>: every entry is added to the reference array.\<close>

fun ProcessJets_itRefs :: "ref list \<Rightarrow> ref list \<Rightarrow> ref list" where
  "ProcessJets_itRefs [] array = array"
| "ProcessJets_itRefs (constituent # it) array =
     ProcessJets_itRefs it (Add array (Some constituent))"

definition ProcessJets_entry :: "externals \<Rightarrow> event \<Rightarrow> ref \<Rightarrow> Jet" where
  "ProcessJets_entry ext ev r =
     (let candidate = ev r;
          momentum = Momentum candidate;
          position = Position candidate;
          pt = Pt ext momentum;
          cosTheta = \<bar>CosTheta ext momentum\<bar>;
          signPz = (if fZ momentum \<ge> 0.0 then 1.0 else - 1.0);
          eta = (if cosTheta = 1.0 then signPz * 999.9 else Eta ext momentum);
          rapidity = (if cosTheta = 1.0 then signPz * 999.9 else Rapidity ext momentum);
          (Constituents, ecalEnergy, hcalEnergy) =
             ProcessJets_itConstituents ev (Candidates candidate) ([], 0.0, 0.0)
      in \<lparr>jet_Eta = eta,
          jet_Phi = Phi ext momentum,
          jet_PT = pt,
          jet_T = fE position * 0.001 / c_light,
          jet_Mass = M ext momentum,
          jet_Area = Area candidate,
          jet_DeltaEta = DeltaEta candidate,
          jet_DeltaPhi = DeltaPhi candidate,
          jet_Flavor = Flavor candidate,
          jet_FlavorAlgo = FlavorAlgo candidate,
          jet_FlavorPhys = FlavorPhys candidate,
          jet_BTag = BTag candidate,
          jet_BTagAlgo = BTagAlgo candidate,
          jet_BTagPhys = BTagPhys candidate,
          jet_PrimaryVertexTracks = map copy (primaryVertexTracks candidate),
          jet_SecondaryVertices = map copy_vertex (secondaryVertices candidate),
          jet_HLSecondaryVertexTracks = map copy (hlSecVxTracks candidate),
          jet_TruthVertices = truthVertices candidate,
          jet_TauTag = TauTag candidate,
          jet_Charge = Charge candidate,
          jet_Constituents = Constituents,
          jet_EhadOverEem = (if ecalEnergy > 0.0 then hcalEnergy / ecalEnergy else 999.9),
          jet_Subjets = ProcessJets_itRefs (Subjets candidate) [],
          jet_Tracks = ProcessJets_itRefs (Tracks candidate) [],
          jet_NCharged = NCharged candidate,
          jet_NNeutrals = NNeutrals candidate,
          jet_Beta = Beta candidate,
          jet_BetaStar = BetaStar candidate,
          jet_MeanSqDeltaR = MeanSqDeltaR candidate,
          jet_PTD = PTD candidate,
          jet_NSubJetsTrimmed = NSubJetsTrimmed candidate,
          jet_NSubJetsPruned = NSubJetsPruned candidate,
          jet_NSubJetsSoftDropped = NSubJetsSoftDropped candidate,
          jet_FracPt = map (\<lambda>i. FracPt candidate ! i) [0..<5],
          jet_Tau = map (\<lambda>i. Tau candidate ! i) [0..<5],
          jet_TrimmedP4 = map (\<lambda>i. TrimmedP4 candidate ! i) [0..<5],
          jet_PrunedP4 = map (\<lambda>i. PrunedP4 candidate ! i) [0..<5],
          jet_SoftDroppedP4 = map (\<lambda>i. SoftDroppedP4 candidate ! i) [0..<5],
          jet_Particles = FillParticles ev r []\<rparr>)"

fun ProcessJets_loop :: "externals \<Rightarrow> event \<Rightarrow> ref list \<Rightarrow> entry list \<Rightarrow> entry list" where
  "ProcessJets_loop ext ev [] branch = branch"
| "ProcessJets_loop ext ev (candidate # iterator) branch =
     ProcessJets_loop ext ev iterator (branch @ [EJet (ProcessJets_entry ext ev candidate)])"

definition ProcessJets ::
  "externals \<Rightarrow> event \<Rightarrow> entry list \<Rightarrow> ref list \<Rightarrow> entry list \<times> ref list" where
  "ProcessJets ext ev branch array =
     (let array = Sort ext ev array in (ProcessJets_loop ext ev array branch, array))"

subsection \<open>Event-level classes and far-detector hits\<close>

definition ProcessMissingET :: "externals \<Rightarrow> event \<Rightarrow> entry list \<Rightarrow> ref list \<Rightarrow> entry list" where
  "ProcessMissingET ext ev branch array =
     (case At0 array of
        None \<Rightarrow> branch
      | Some r \<Rightarrow>
          (let candidate = ev r;
               momentum = Momentum candidate
           in branch @ [EMissingET \<lparr>met_Eta = Eta ext (neg momentum),
                                    met_Phi = Phi ext (neg momentum),
                                    met_MET = Pt ext momentum\<rparr>]))"

definition ProcessScalarHT :: "externals \<Rightarrow> event \<Rightarrow> entry list \<Rightarrow> ref list \<Rightarrow> entry list" where
  "ProcessScalarHT ext ev branch array =
     (case At0 array of
        None \<Rightarrow> branch
      | Some r \<Rightarrow>
          (let candidate = ev r;
               momentum = Momentum candidate
           in branch @ [EScalarHT \<lparr>ht_HT = Pt ext momentum\<rparr>]))"

definition ProcessRho_entry :: "event \<Rightarrow> ref \<Rightarrow> Rho" where
  "ProcessRho_entry ev r =
     (let candidate = ev r;
          momentum = Momentum candidate
      in \<lparr>rho_Rho = fE momentum,
          rho_Edges = [Edges candidate ! 0, Edges candidate ! 1]\<rparr>)"

fun ProcessRho_loop :: "event \<Rightarrow> ref list \<Rightarrow> entry list \<Rightarrow> entry list" where
  "ProcessRho_loop ev [] branch = branch"
| "ProcessRho_loop ev (candidate # iterator) branch =
     ProcessRho_loop ev iterator (branch @ [ERho (ProcessRho_entry ev candidate)])"

definition ProcessRho :: "externals \<Rightarrow> event \<Rightarrow> entry list \<Rightarrow> ref list \<Rightarrow> entry list" where
  "ProcessRho ext ev branch array = ProcessRho_loop ev array branch"

definition ProcessWeight :: "externals \<Rightarrow> event \<Rightarrow> entry list \<Rightarrow> ref list \<Rightarrow> entry list" where
  "ProcessWeight ext ev branch array =
     (case At0 array of
        None \<Rightarrow> branch
      | Some r \<Rightarrow>
          (let candidate = ev r;
               momentum = Momentum candidate
           in branch @ [EWeight \<lparr>w_Weight = fE momentum\<rparr>]))"

definition ProcessHectorHit_entry :: "event \<Rightarrow> ref \<Rightarrow> HectorHit" where
  "ProcessHectorHit_entry ev r =
     (let candidate = ev r;
          position = Position candidate;
          momentum = Momentum candidate
      in \<lparr>hit_E = fE momentum,
          hit_Tx = fX momentum,
          hit_Ty = fY momentum,
          hit_T = fE position,
          hit_X = fX position,
          hit_Y = fY position,
          hit_S = fZ position,
          hit_Particle = At0 (Candidates candidate)\<rparr>)"

fun ProcessHectorHit_loop :: "event \<Rightarrow> ref list \<Rightarrow> entry list \<Rightarrow> entry list" where
  "ProcessHectorHit_loop ev [] branch = branch"
| "ProcessHectorHit_loop ev (candidate # iterator) branch =
     ProcessHectorHit_loop ev iterator (branch @ [EHectorHit (ProcessHectorHit_entry ev candidate)])"

definition ProcessHectorHit :: "externals \<Rightarrow> event \<Rightarrow> entry list \<Rightarrow> ref list \<Rightarrow> entry list" where
  "ProcessHectorHit ext ev branch array = ProcessHectorHit_loop ev array branch"

section \<open>Branch registry\<close>

text \<open>
  \<^verbatim>\<open>TProcessMethod\<close> is a pointer to one of the thirteen projectors, \<^verbatim>\<open>TClass*\<close> the class
  object that \<^verbatim>\<open>gROOT->GetClass\<close> finds for a name: one of the thirteen output classes, or
  another class of the dictionary.
\<close>

datatype TProcessMethod =
    MProcessParticles | MProcessVertices | MProcessTracks | MProcessTowers
  | MProcessPhotons | MProcessElectrons | MProcessMuons | MProcessJets
  | MProcessMissingET | MProcessScalarHT | MProcessRho | MProcessWeight
  | MProcessHectorHit


text \<open>
  A branch is known by its handle, the number of branches that \<^verbatim>\<open>NewBranch\<close> had made
  before it; an input array is known by the name \<^verbatim>\<open>ImportArray\<close> looks it up by, so two
  triples naming the same array share it.  \<^verbatim>\<open>fBranchMap\<close> is the list of its pairs in the
  order they were inserted (every key is a new branch, so no insertion is dropped);
  \<^verbatim>\<open>std::map\<close> visits them in the order of the branch addresses, which the source does not
  fix, and the statements below about \<open>Process\<close> hold for every order of the list.
\<close>

type_synonym TBranchMap = "(nat \<times> TProcessMethod \<times> string) list"






subsection \<open>The pass over one event\<close>

text \<open>
  \<open>call\<close> is the call \<^verbatim>\<open>(this->*method)(branch, array)\<close>: it gives the branch and the array
  as the projector leaves them, or the error that stopped the program.
\<close>

fun call ::
  "externals \<Rightarrow> event \<Rightarrow> TProcessMethod \<Rightarrow> entry list \<Rightarrow> ref list \<Rightarrow>
     error + entry list \<times> ref list" where
  "call ext ev MProcessParticles branch array = Inr (ProcessParticles ext ev branch array, array)"
| "call ext ev MProcessVertices branch array = Inr (ProcessVertices ext ev branch array, array)"
| "call ext ev MProcessTracks branch array =
     (case ProcessTracks ext ev branch array of
        Inl e \<Rightarrow> Inl e
      | Inr branch' \<Rightarrow> Inr (branch', array))"
| "call ext ev MProcessTowers branch array = Inr (ProcessTowers ext ev branch array, array)"
| "call ext ev MProcessPhotons branch array = Inr (ProcessPhotons ext ev branch array)"
| "call ext ev MProcessElectrons branch array = Inr (ProcessElectrons ext ev branch array)"
| "call ext ev MProcessMuons branch array = Inr (ProcessMuons ext ev branch array)"
| "call ext ev MProcessJets branch array = Inr (ProcessJets ext ev branch array)"
| "call ext ev MProcessMissingET branch array = Inr (ProcessMissingET ext ev branch array, array)"
| "call ext ev MProcessScalarHT branch array = Inr (ProcessScalarHT ext ev branch array, array)"
| "call ext ev MProcessRho branch array = Inr (ProcessRho ext ev branch array, array)"
| "call ext ev MProcessWeight branch array = Inr (ProcessWeight ext ev branch array, array)"
| "call ext ev MProcessHectorHit branch array = Inr (ProcessHectorHit ext ev branch array, array)"

text \<open>
  The state of one pass: the contents of the input arrays, by name, and of the branches,
  by handle.
\<close>

type_synonym arrays = "string \<Rightarrow> ref list"
type_synonym tree = "nat \<Rightarrow> entry list"

fun Process_loop ::
  "externals \<Rightarrow> event \<Rightarrow> TBranchMap \<Rightarrow> arrays \<times> tree \<Rightarrow> error + arrays \<times> tree" where
  "Process_loop ext ev [] st = Inr st"
| "Process_loop ext ev ((branch, method, array) # itBranchMap) (arrs, tr) =
     (case call ext ev method (tr branch) (arrs array) of
        Inl e \<Rightarrow> Inl e
      | Inr (branch', array') \<Rightarrow>
          Process_loop ext ev itBranchMap (arrs(array := array'), tr(branch := branch')))"


text \<open>
  Two passes in succession over the same event: \<open>run_pass\<close> is one call of \<open>Process\<close>
  on branches that the tree writer has cleared, \<open>second_pass\<close> runs it again on the arrays
  as the first pass left them.  \<open>branch_of\<close> reads a branch of the result.
\<close>

definition run_pass :: "externals \<Rightarrow> event \<Rightarrow> TBranchMap \<Rightarrow> arrays \<Rightarrow> error + arrays \<times> tree" where
  "run_pass ext ev reg arrs = Process_loop ext ev reg (arrs, \<lambda>branch. [])"

definition second_pass :: "externals \<Rightarrow> event \<Rightarrow> TBranchMap \<Rightarrow> arrays \<Rightarrow> error + arrays \<times> tree" where
  "second_pass ext ev reg arrs =
     (case run_pass ext ev reg arrs of
        Inl e \<Rightarrow> Inl e
      | Inr (arrs1, tr1) \<Rightarrow> run_pass ext ev reg arrs1)"

definition branch_of :: "error + arrays \<times> tree \<Rightarrow> nat \<Rightarrow> entry list" where
  "branch_of res branch = (case res of Inl e \<Rightarrow> [] | Inr (arrs, tr) \<Rightarrow> tr branch)"

section \<open>The statements of the specification\<close>

subsection \<open>Flattening\<close>

text \<open>
  What the specification says one child contributes to the flattened list: the child
  itself when it has no children; else its first child when that one has no children;
  else, for each of the child's children in order, that one's first child.
\<close>

definition first_child :: "event \<Rightarrow> ref \<Rightarrow> ref list" where
  "first_child ev g = (case Candidates (ev g) of [] \<Rightarrow> [] | x # _ \<Rightarrow> [x])"

definition flatten_child :: "event \<Rightarrow> ref \<Rightarrow> ref list" where
  "flatten_child ev child =
     (case Candidates (ev child) of
        [] \<Rightarrow> [child]
      | first # _ \<Rightarrow>
          (case Candidates (ev first) of
             [] \<Rightarrow> [first]
           | _ # _ \<Rightarrow> concat (map (first_child ev) (Candidates (ev child)))))"

text \<open>
  The tower shape of a child: it has children, and every one of them has children of its
  own.
\<close>

definition tower_shape :: "event \<Rightarrow> ref \<Rightarrow> bool" where
  "tower_shape ev child \<longleftrightarrow>
     Candidates (ev child) \<noteq> [] \<and>
     list_all (\<lambda>g. Candidates (ev g) \<noteq> []) (Candidates (ev child))"

subsection \<open>Kinematics\<close>

text \<open>
  The degenerate-axis rule: the sentinel \<open>\<plusminus>999.9\<close> with the sign of the longitudinal
  component when \<open>|cos \<theta>|\<close> is exactly one, the value of the kinematics library otherwise.
\<close>

definition eta_rule :: "externals \<Rightarrow> TLorentzVector \<Rightarrow> real" where
  "eta_rule ext v =
     (if \<bar>CosTheta ext v\<bar> = 1 then (if fZ v \<ge> 0 then 999.9 else - 999.9) else Eta ext v)"

definition rapidity_rule :: "externals \<Rightarrow> TLorentzVector \<Rightarrow> real" where
  "rapidity_rule ext v =
     (if \<bar>CosTheta ext v\<bar> = 1 then (if fZ v \<ge> 0 then 999.9 else - 999.9) else Rapidity ext v)"

text \<open>
  The pseudorapidity, rapidity and outer pseudorapidity fields of a branch entry; none for
  an entry of a class without the field.
\<close>

definition entry_Eta :: "entry \<Rightarrow> real option" where
  "entry_Eta e =
     (case e of
        EGenParticle x \<Rightarrow> Some (gen_Eta x)
      | ETrack x \<Rightarrow> Some (trk_Eta x)
      | ETower x \<Rightarrow> Some (twr_Eta x)
      | EPhoton x \<Rightarrow> Some (pho_Eta x)
      | EElectron x \<Rightarrow> Some (ele_Eta x)
      | EMuon x \<Rightarrow> Some (mu_Eta x)
      | EJet x \<Rightarrow> Some (jet_Eta x)
      | EMissingET x \<Rightarrow> Some (met_Eta x)
      | _ \<Rightarrow> None)"

definition entry_Rapidity :: "entry \<Rightarrow> real option" where
  "entry_Rapidity e = (case e of EGenParticle x \<Rightarrow> Some (gen_Rapidity x) | _ \<Rightarrow> None)"

definition entry_EtaOuter :: "entry \<Rightarrow> real option" where
  "entry_EtaOuter e = (case e of ETrack x \<Rightarrow> Some (trk_EtaOuter x) | _ \<Rightarrow> None)"

text \<open>
  Modelled from the spec: the transverse magnitude of a four-vector, which
  \<^verbatim>\<open>TLorentzVector::Pt\<close> computes outside this file.
\<close>

definition transverse :: "TLorentzVector \<Rightarrow> real" where
  "transverse v = sqrt (fX v * fX v + fY v * fY v)"

subsection \<open>Track consistency\<close>

text \<open>
  Equality up to an absolute tolerance of \<open>1e-15\<close> or a tolerance of \<open>1e-9\<close> relative to the
  first value.
\<close>

definition within_tolerance :: "real \<Rightarrow> real \<Rightarrow> bool" where
  "within_tolerance a b \<longleftrightarrow> \<bar>a - b\<bar> < 1 / 10 ^ 15 \<or> \<bar>a - b\<bar> \<le> \<bar>a\<bar> / 10 ^ 9"

definition track_consistent :: "externals \<Rightarrow> event \<Rightarrow> ref \<Rightarrow> bool" where
  "track_consistent ext ev r \<longleftrightarrow>
     within_tolerance (Zd (ev r)) (trkPar (ev r) ! Z0 ext) \<and>
     within_tolerance (Dxy (ev r)) (trkPar (ev r) ! D0 ext)"

definition has_particle :: "event \<Rightarrow> ref \<Rightarrow> bool" where
  "has_particle ev r \<longleftrightarrow> Candidates (ev r) \<noteq> []"

subsection \<open>Configuration\<close>






text \<open>The projectors that sort their input array.\<close>

fun sorts :: "TProcessMethod \<Rightarrow> bool" where
  "sorts MProcessPhotons = True"
| "sorts MProcessElectrons = True"
| "sorts MProcessMuons = True"
| "sorts MProcessJets = True"
| "sorts _ = False"

definition sorted_arrays :: "TBranchMap \<Rightarrow> string list" where
  "sorted_arrays reg = map (\<lambda>(branch, method, array). array) (filter (\<lambda>(branch, method, array). sorts method) reg)"

definition unsorted_arrays :: "TBranchMap \<Rightarrow> string list" where
  "unsorted_arrays reg = map (\<lambda>(branch, method, array). array) (filter (\<lambda>(branch, method, array). \<not> sorts method) reg)"

section \<open>Example inputs\<close>

text \<open>
  A candidate with every field zero or empty, and an instance of the external
  collaborators: the transverse magnitude, the cosine of the polar angle, pseudorapidity
  and rapidity in closed form over the reals, and the stable sort by descending
  transverse momentum that the specification expects of the class ranking key.  On the
  beam axis, where the closed form of the pseudorapidity is infinite, \<open>Eta\<close> is \<open>\<plusminus>10e10\<close> with
  the sign of the longitudinal component, as \<^verbatim>\<open>TVector3::PseudoRapidity\<close> returns it.
\<close>

definition Candidate0 :: Candidate where
  "Candidate0 =
     \<lparr>UniqueID = 0, PID = 0, Status = 0, IsPU = 0, M1 = 0, M2 = 0, D1 = 0, D2 = 0,
      Charge = 0, Mass = 0,
      Momentum = \<lparr>fX = 0, fY = 0, fZ = 0, fE = 0\<rparr>,
      Position = \<lparr>fX = 0, fY = 0, fZ = 0, fE = 0\<rparr>,
      Dxy = 0, SDxy = 0, Xd = 0, Yd = 0, Zd = 0,
      trkPar = [0, 0, 0, 0, 0],
      trkCov = [0, 0, 0, 0, 0, 0, 0, 0, 0, 0, 0, 0, 0, 0, 0],
      Eem = 0, Ehad = 0, Edges = [0, 0, 0, 0], NTimeHits = 0,
      IsolationVar = 0, IsolationVarRhoCorr = 0, SumPtCharged = 0, SumPtNeutral = 0,
      SumPtChargedPU = 0, SumPt = 0,
      Area = \<lparr>fX = 0, fY = 0, fZ = 0, fE = 0\<rparr>,
      DeltaEta = 0, DeltaPhi = 0, Flavor = 0, FlavorAlgo = 0, FlavorPhys = 0,
      BTag = 0, BTagAlgo = 0, BTagPhys = 0,
      primaryVertexTracks = [], secondaryVertices = [], hlSecVxTracks = [],
      truthVertices = [], TauTag = 0, NCharged = 0, NNeutrals = 0, Beta = 0,
      BetaStar = 0, MeanSqDeltaR = 0, PTD = 0, NSubJetsTrimmed = 0, NSubJetsPruned = 0,
      NSubJetsSoftDropped = 0, FracPt = [0, 0, 0, 0, 0], Tau = [0, 0, 0, 0, 0],
      TrimmedP4 = [], PrunedP4 = [], SoftDroppedP4 = [],
      Candidates = [], Subjets = [], Tracks = []\<rparr>"

definition example_externals :: externals where
  "example_externals =
     \<lparr>Pt = transverse,
      CosTheta = (\<lambda>v. let ptot = sqrt (fX v * fX v + fY v * fY v + fZ v * fZ v)
                      in if ptot = 0 then 1 else fZ v / ptot),
      Eta = (\<lambda>v. let ptot = sqrt (fX v * fX v + fY v * fY v + fZ v * fZ v);
                     cosTheta = (if ptot = 0 then 1 else fZ v / ptot)
                 in if cosTheta * cosTheta < 1
                    then - ln ((1 - cosTheta) / (1 + cosTheta)) / 2
                    else if fZ v = 0 then 0
                    else if fZ v > 0 then 100000000000 else - 100000000000),
      Rapidity = (\<lambda>v. ln ((fE v + fZ v) / (fE v - fZ v)) / 2),
      Phi = (\<lambda>v. if fX v = 0 \<and> fY v = 0 then 0
                 else if fY v \<ge> 0 then arccos (fX v / transverse v)
                 else - arccos (fX v / transverse v)),
      M = (\<lambda>v. let m2 = fE v * fE v - (fX v * fX v + fY v * fY v + fZ v * fZ v)
               in if m2 < 0 then - sqrt (- m2) else sqrt m2),
      Sort = (\<lambda>ev. sort_key (\<lambda>r. - transverse (Momentum (ev r)))),
      Z0 = 1,
      D0 = 0\<rparr>"

text \<open>An event given by the children of its candidates: candidate \<open>r\<close> has the handle as identifier.\<close>

definition children_event :: "(ref \<times> ref list) list \<Rightarrow> event" where
  "children_event g r =
     Candidate0\<lparr>UniqueID := r,
                Candidates := (case map_of g r of None \<Rightarrow> [] | Some cs \<Rightarrow> cs)\<rparr>"

text \<open>
  A track (handle 0) whose only child (handle 1) is a particle produced at
  \<open>(1, 2, 3)\<close> at internal time \<open>1000\<close>.
\<close>

definition track_event :: event where
  "track_event r =
     (if r = 0 then Candidate0\<lparr>Candidates := [1]\<rparr>
      else Candidate0\<lparr>Position := \<lparr>fX = 1, fY = 2, fZ = 3, fE = 1000\<rparr>\<rparr>)"

text \<open>
  Two particles: handle 0 flies along the beam axis in the negative direction, every
  other handle has momentum \<open>(3, 4, 0, 5)\<close>.
\<close>

definition beam_event :: event where
  "beam_event r =
     (if r = 0 then Candidate0\<lparr>Momentum := \<lparr>fX = 0, fY = 0, fZ = - 2, fE = 2\<rparr>\<rparr>
      else Candidate0\<lparr>Momentum := \<lparr>fX = 3, fY = 4, fZ = 0, fE = 5\<rparr>\<rparr>)"

text \<open>
  A jet (handle 0) with two constituents: handle 1 carries \<open>Eem = -1\<close> and \<open>Ehad = 5\<close>,
  handle 2 carries no energy.
\<close>

definition jet_event :: event where
  "jet_event r =
     (if r = 0 then Candidate0\<lparr>Candidates := [1, 2]\<rparr>
      else if r = 1 then Candidate0\<lparr>Eem := - 1, Ehad := 5\<rparr>
      else Candidate0)"

text \<open>
  Two more tracks at handle 0: one whose \<open>Zd\<close> is \<open>1\<close> while its track parameters are zero,
  and one that satisfies the consistency relation and has no children.
\<close>

definition inconsistent_track_event :: event where
  "inconsistent_track_event r =
     (if r = 0 then Candidate0\<lparr>Zd := 1, Candidates := [1]\<rparr> else Candidate0)"

definition orphan_track_event :: event where
  "orphan_track_event r = Candidate0"



text \<open>
  Two registries over the arrays of \<open>beam_event\<close>: in the first the particle branch and the
  photon branch read the same array, in the second they read different arrays.  Every
  array holds the handles 0 and 1.
\<close>

definition shared_registry :: TBranchMap where
  "shared_registry = [(0, MProcessParticles, ''photons''), (1, MProcessPhotons, ''photons'')]"

definition separate_registry :: TBranchMap where
  "separate_registry = [(0, MProcessParticles, ''particles''), (1, MProcessPhotons, ''photons'')]"

definition example_arrays :: arrays where
  "example_arrays name = [0, 1]"



section \<open>Verification\<close>

subsection \<open>The loops of the projectors\<close>

lemma ProcessParticles_loop_append:
  "ProcessParticles_loop ext ev it branch =
     branch @ map (\<lambda>r. EGenParticle (ProcessParticles_entry ext ev r)) it"
  by (induction it arbitrary: branch) simp_all

lemma ProcessVertices_loop_append:
  "ProcessVertices_loop ev it branch = branch @ map (\<lambda>r. EVertex (ProcessVertices_entry ev r)) it"
  by (induction it arbitrary: branch) simp_all

lemma ProcessTowers_loop_append:
  "ProcessTowers_loop ext ev it branch =
     branch @ map (\<lambda>r. ETower (ProcessTowers_entry ext ev r)) it"
  by (induction it arbitrary: branch) simp_all

lemma ProcessPhotons_loop_append:
  "ProcessPhotons_loop ext ev it branch =
     branch @ map (\<lambda>r. EPhoton (ProcessPhotons_entry ext ev r)) it"
  by (induction it arbitrary: branch) simp_all

lemma ProcessElectrons_loop_append:
  "ProcessElectrons_loop ext ev it branch =
     branch @ map (\<lambda>r. EElectron (ProcessElectrons_entry ext ev r)) it"
  by (induction it arbitrary: branch) simp_all

lemma ProcessMuons_loop_append:
  "ProcessMuons_loop ext ev it branch =
     branch @ map (\<lambda>r. EMuon (ProcessMuons_entry ext ev r)) it"
  by (induction it arbitrary: branch) simp_all

lemma ProcessJets_loop_append:
  "ProcessJets_loop ext ev it branch =
     branch @ map (\<lambda>r. EJet (ProcessJets_entry ext ev r)) it"
  by (induction it arbitrary: branch) simp_all

lemma ProcessRho_loop_append:
  "ProcessRho_loop ev it branch = branch @ map (\<lambda>r. ERho (ProcessRho_entry ev r)) it"
  by (induction it arbitrary: branch) simp_all

lemma ProcessHectorHit_loop_append:
  "ProcessHectorHit_loop ev it branch =
     branch @ map (\<lambda>r. EHectorHit (ProcessHectorHit_entry ev r)) it"
  by (induction it arbitrary: branch) simp_all

subsection \<open>Flattening\<close>

lemma FillParticles_it2_append:
  "FillParticles_it2 ev it2 array = array @ concat (map (first_child ev) it2)"
  by (induction it2 arbitrary: array)
     (simp_all add: Add_def At0_def first_child_def split: list.splits)

lemma FillParticles_it1_append:
  "FillParticles_it1 ev it1 array = array @ concat (map (flatten_child ev) it1)"
  by (induction it1 arbitrary: array)
     (simp_all add: Add_def flatten_child_def FillParticles_it2_append Let_def split: list.splits)

lemma length_first_children:
  "list_all (\<lambda>g. Candidates (ev g) \<noteq> []) cs \<Longrightarrow>
     length (concat (map (first_child ev) cs)) = length cs"
  by (induction cs) (simp_all add: first_child_def split: list.splits)

lemma flatten_child_tower:
  assumes "tower_shape ev child"
  shows "length (flatten_child ev child) = length (Candidates (ev child))"
proof -
  from assms obtain f fs where c: "Candidates (ev child) = f # fs"
    by (auto simp: tower_shape_def neq_Nil_conv)
  from assms have all: "list_all (\<lambda>g. Candidates (ev g) \<noteq> []) (f # fs)"
    by (simp add: tower_shape_def c)
  then obtain x xs where f: "Candidates (ev f) = x # xs"
    by (auto simp: neq_Nil_conv)
  have "flatten_child ev child = concat (map (first_child ev) (f # fs))"
    by (simp add: flatten_child_def c f)
  with length_first_children [OF all] show ?thesis
    by (simp add: c)
qed

lemma length_concat_tower:
  "list_all (tower_shape ev) cs \<Longrightarrow>
     length (concat (map (flatten_child ev) cs)) =
       sum_list (map (\<lambda>child. length (Candidates (ev child))) cs)"
  by (induction cs) (simp_all add: flatten_child_tower)

text \<open>
  C1.  \<open>FillParticles\<close> ignores what the output list held and returns, for the candidate's
  direct children in order, the concatenation of what each child contributes by the
  three-level rule: nothing is reordered and nothing is removed, so a leaf reached twice
  appears twice.  When every child has the tower shape, the length of the result is the
  sum of the grandchildren counts.  A candidate without children gives the empty list.
\<close>

theorem FillParticles_flattens:
  "FillParticles ev c array = concat (map (flatten_child ev) (Candidates (ev c))) \<and>
   (list_all (tower_shape ev) (Candidates (ev c)) \<longrightarrow>
      length (FillParticles ev c array) =
        sum_list (map (\<lambda>child. length (Candidates (ev child))) (Candidates (ev c)))) \<and>
   (Candidates (ev c) = [] \<longrightarrow> FillParticles ev c array = [])"
  by (simp add: FillParticles_def FillParticles_it1_append length_concat_tower)

theorem FillParticles_flattens_witness:
  "list_all (tower_shape (children_event [(0, [1, 2]), (1, [3, 4]), (2, [4]), (3, [5]), (4, [5])])) [1, 2] \<and>
   FillParticles (children_event [(0, [1, 2]), (1, [3, 4]), (2, [4]), (3, [5]), (4, [5])]) 0 [7] = [5, 5, 5] \<and>
   length (FillParticles (children_event [(0, [1, 2]), (1, [3, 4]), (2, [4]), (3, [5]), (4, [5])]) 0 [7]) = 2 + 1 \<and>
   FillParticles (children_event [(0, [1, 2]), (1, [3, 4]), (2, [4]), (3, [5]), (4, [5])]) 5 [7] = []"
  using FillParticles_flattens [of "children_event [(0, [1, 2]), (1, [3, 4]), (2, [4]), (3, [5]), (4, [5])]" 0 "[7]"]
        FillParticles_flattens [of "children_event [(0, [1, 2]), (1, [3, 4]), (2, [4]), (3, [5]), (4, [5])]" 5 "[7]"]
  by (simp add: children_event_def tower_shape_def flatten_child_def first_child_def)

subsection \<open>Event-level classes\<close>

text \<open>
  C10.  On an empty input array the missing-energy, scalar-sum and generator-weight
  projectors return normally and leave the branch as it was: from an empty branch they
  emit no record.
\<close>

theorem singleton_projectors_empty_array:
  "call ext ev MProcessMissingET branch [] = Inr (branch, []) \<and>
   call ext ev MProcessScalarHT branch [] = Inr (branch, []) \<and>
   call ext ev MProcessWeight branch [] = Inr (branch, []) \<and>
   ProcessMissingET ext ev [] [] = [] \<and>
   ProcessScalarHT ext ev [] [] = [] \<and>
   ProcessWeight ext ev [] [] = []"
  by (simp add: ProcessMissingET_def ProcessScalarHT_def ProcessWeight_def At0_def)

subsection \<open>Fields of the track entry\<close>

lemma ProcessTracks_entry_Inr:
  assumes "ProcessTracks_entry ext ev r = Inr t"
  shows "\<exists>particle. At0 (Candidates (ev r)) = Some particle \<and>
     trk_TOuter t = fE (Position (ev r)) * 0.001 / c_light \<and>
     trk_T t = fE (Position (ev particle)) * 0.001 / c_light \<and>
     trk_X t = fX (Position (ev particle)) \<and>
     trk_Y t = fY (Position (ev particle)) \<and>
     trk_Z t = fZ (Position (ev particle)) \<and>
     trk_Particle t = Some particle \<and>
     trk_EtaOuter t = eta_rule ext (Position (ev r)) \<and>
     trk_Eta t = eta_rule ext (Momentum (ev r))"
  using assms
  by (auto simp: ProcessTracks_entry_def Let_def eta_rule_def split: if_splits option.splits)

lemma ProcessTracks_loop_eta:
  "ProcessTracks_loop ext ev it branch = Inr out \<Longrightarrow>
     map entry_EtaOuter out =
       map entry_EtaOuter branch @ map (\<lambda>r. Some (eta_rule ext (Position (ev r)))) it \<and>
     map entry_Eta out =
       map entry_Eta branch @ map (\<lambda>r. Some (eta_rule ext (Momentum (ev r)))) it"
proof (induction it arbitrary: branch)
  case Nil
  then show ?case by simp
next
  case (Cons r it)
  from Cons.prems obtain t where t: "ProcessTracks_entry ext ev r = Inr t"
    and rest: "ProcessTracks_loop ext ev it (branch @ [ETrack t]) = Inr out"
    by (auto split: sum.splits)
  from ProcessTracks_entry_Inr [OF t]
  have "trk_EtaOuter t = eta_rule ext (Position (ev r))" "trk_Eta t = eta_rule ext (Momentum (ev r))"
    by auto
  with Cons.IH [OF rest] show ?case
    by (simp add: entry_Eta_def entry_EtaOuter_def)
qed

lemma track_event_entry:
  "\<exists>t. ProcessTracks_entry example_externals track_event 0 = Inr t"
  by (simp add: ProcessTracks_entry_def track_event_def Candidate0_def example_externals_def
      check_d0_z0_def compare_def At0_def Let_def)

subsection \<open>Time conversion\<close>

text \<open>
  C2 (as amended).  The particle, vertex, track (outer and production time), tower,
  photon, electron, muon and jet entries hold the internal time multiplied by \<open>1.0e-3\<close> and
  divided by \<open>c = 2.99792458e8\<close>; the track's production time is that of its first child.
  The far-detector hit entry holds the internal time of its position unconverted.
\<close>

theorem time_conversion:
  "gen_T (ProcessParticles_entry ext ev r) = fE (Position (ev r)) * 0.001 / 299792458 \<and>
   vtx_T (ProcessVertices_entry ev r) = fE (Position (ev r)) * 0.001 / 299792458 \<and>
   (\<forall>t. ProcessTracks_entry ext ev r = Inr t \<longrightarrow>
      trk_TOuter t = fE (Position (ev r)) * 0.001 / 299792458 \<and>
      (\<exists>particle. At0 (Candidates (ev r)) = Some particle \<and>
         trk_T t = fE (Position (ev particle)) * 0.001 / 299792458)) \<and>
   twr_T (ProcessTowers_entry ext ev r) = fE (Position (ev r)) * 0.001 / 299792458 \<and>
   pho_T (ProcessPhotons_entry ext ev r) = fE (Position (ev r)) * 0.001 / 299792458 \<and>
   ele_T (ProcessElectrons_entry ext ev r) = fE (Position (ev r)) * 0.001 / 299792458 \<and>
   mu_T (ProcessMuons_entry ext ev r) = fE (Position (ev r)) * 0.001 / 299792458 \<and>
   jet_T (ProcessJets_entry ext ev r) = fE (Position (ev r)) * 0.001 / 299792458 \<and>
   hit_T (ProcessHectorHit_entry ev r) = fE (Position (ev r))"
proof -
  have trk: "\<forall>t. ProcessTracks_entry ext ev r = Inr t \<longrightarrow>
      trk_TOuter t = fE (Position (ev r)) * 0.001 / 299792458 \<and>
      (\<exists>particle. At0 (Candidates (ev r)) = Some particle \<and>
         trk_T t = fE (Position (ev particle)) * 0.001 / 299792458)"
    using ProcessTracks_entry_Inr [of ext ev r] by (fastforce simp: c_light_def)
  have jet: "jet_T (ProcessJets_entry ext ev r) = fE (Position (ev r)) * 0.001 / 299792458"
    by (simp add: ProcessJets_entry_def Let_def c_light_def split_def)
  show ?thesis
    using trk jet
    by (simp add: ProcessParticles_entry_def ProcessVertices_entry_def ProcessTowers_entry_def
        ProcessPhotons_entry_def ProcessElectrons_entry_def ProcessMuons_entry_def
        ProcessHectorHit_entry_def Let_def c_light_def)
qed

theorem time_conversion_witness:
  "\<exists>t. ProcessTracks_entry example_externals track_event 0 = Inr t \<and>
       trk_TOuter t = 0 \<and> trk_T t = 1000 * 0.001 / 299792458"
proof -
  from track_event_entry obtain t
    where t: "ProcessTracks_entry example_externals track_event 0 = Inr t"
    by blast
  with time_conversion [of example_externals track_event 0]
  have "trk_TOuter t = 0 \<and> trk_T t = 1000 * 0.001 / 299792458"
    by (auto simp: track_event_def Candidate0_def At0_def)
  with t show ?thesis by blast
qed

text \<open>
  A far-detector hit at internal time \<open>1000\<close>: the entry holds \<open>1000\<close>, not the converted
  time.
\<close>

theorem hector_hit_time_counterexample:
  "hit_T (ProcessHectorHit_entry track_event 1) \<noteq>
     fE (Position (track_event 1)) * 0.001 / 299792458"
  by (simp add: ProcessHectorHit_entry_def track_event_def Let_def)

subsection \<open>Degenerate-axis rule\<close>

text \<open>
  C3 (as amended).  In the particle entry, a momentum whose \<open>|cos \<theta>|\<close> equals one exactly
  gives pseudorapidity and rapidity \<open>signPz * 999.9\<close>, with \<open>signPz\<close> one when the longitudinal
  component is not negative and minus one otherwise; every other momentum gives the
  library's pseudorapidity and rapidity.  The same rule gives the pseudorapidity of the
  track (at the outer surface, from the position, and at production, from the momentum),
  tower, photon, electron, muon and jet entries, and so every such field that the
  projectors write to their branches.  The missing-energy record is the exception: its
  pseudorapidity is the library's for the negated momentum, with no test of the angle.
\<close>

theorem degenerate_axis_rule:
  "(\<bar>CosTheta ext (Momentum (ev r))\<bar> = 1 \<longrightarrow>
      gen_Eta (ProcessParticles_entry ext ev r) =
        (if fZ (Momentum (ev r)) \<ge> 0 then 1 else - 1) * 999.9 \<and>
      gen_Rapidity (ProcessParticles_entry ext ev r) =
        (if fZ (Momentum (ev r)) \<ge> 0 then 1 else - 1) * 999.9) \<and>
   (\<bar>CosTheta ext (Momentum (ev r))\<bar> \<noteq> 1 \<longrightarrow>
      gen_Eta (ProcessParticles_entry ext ev r) = Eta ext (Momentum (ev r)) \<and>
      gen_Rapidity (ProcessParticles_entry ext ev r) = Rapidity ext (Momentum (ev r))) \<and>
   gen_Eta (ProcessParticles_entry ext ev r) = eta_rule ext (Momentum (ev r)) \<and>
   gen_Rapidity (ProcessParticles_entry ext ev r) = rapidity_rule ext (Momentum (ev r)) \<and>
   (\<forall>t. ProcessTracks_entry ext ev r = Inr t \<longrightarrow>
      trk_EtaOuter t = eta_rule ext (Position (ev r)) \<and>
      trk_Eta t = eta_rule ext (Momentum (ev r))) \<and>
   twr_Eta (ProcessTowers_entry ext ev r) = eta_rule ext (Momentum (ev r)) \<and>
   pho_Eta (ProcessPhotons_entry ext ev r) = eta_rule ext (Momentum (ev r)) \<and>
   ele_Eta (ProcessElectrons_entry ext ev r) = eta_rule ext (Momentum (ev r)) \<and>
   mu_Eta (ProcessMuons_entry ext ev r) = eta_rule ext (Momentum (ev r)) \<and>
   jet_Eta (ProcessJets_entry ext ev r) = eta_rule ext (Momentum (ev r)) \<and>
   map entry_Eta (ProcessParticles ext ev [] array) =
     map (\<lambda>r. Some (eta_rule ext (Momentum (ev r)))) array \<and>
   map entry_Rapidity (ProcessParticles ext ev [] array) =
     map (\<lambda>r. Some (rapidity_rule ext (Momentum (ev r)))) array \<and>
   (\<forall>out. ProcessTracks ext ev [] array = Inr out \<longrightarrow>
      map entry_EtaOuter out = map (\<lambda>r. Some (eta_rule ext (Position (ev r)))) array \<and>
      map entry_Eta out = map (\<lambda>r. Some (eta_rule ext (Momentum (ev r)))) array) \<and>
   map entry_Eta (ProcessTowers ext ev [] array) =
     map (\<lambda>r. Some (eta_rule ext (Momentum (ev r)))) array \<and>
   map entry_Eta (fst (ProcessPhotons ext ev [] array)) =
     map (\<lambda>r. Some (eta_rule ext (Momentum (ev r)))) (Sort ext ev array) \<and>
   map entry_Eta (fst (ProcessElectrons ext ev [] array)) =
     map (\<lambda>r. Some (eta_rule ext (Momentum (ev r)))) (Sort ext ev array) \<and>
   map entry_Eta (fst (ProcessMuons ext ev [] array)) =
     map (\<lambda>r. Some (eta_rule ext (Momentum (ev r)))) (Sort ext ev array) \<and>
   map entry_Eta (fst (ProcessJets ext ev [] array)) =
     map (\<lambda>r. Some (eta_rule ext (Momentum (ev r)))) (Sort ext ev array) \<and>
   map entry_Eta (ProcessMissingET ext ev [] (r # array)) =
     [Some (Eta ext (neg (Momentum (ev r))))]"
proof -
  have trk: "\<forall>t. ProcessTracks_entry ext ev r = Inr t \<longrightarrow>
      trk_EtaOuter t = eta_rule ext (Position (ev r)) \<and>
      trk_Eta t = eta_rule ext (Momentum (ev r))"
    using ProcessTracks_entry_Inr [of ext ev r] by blast
  have jet: "jet_Eta (ProcessJets_entry ext ev r) = eta_rule ext (Momentum (ev r))"
    by (simp add: ProcessJets_entry_def Let_def eta_rule_def split_def)
  have gen: "gen_Eta (ProcessParticles_entry ext ev r) = eta_rule ext (Momentum (ev r)) \<and>
     gen_Rapidity (ProcessParticles_entry ext ev r) = rapidity_rule ext (Momentum (ev r))"
    by (simp add: ProcessParticles_entry_def Let_def eta_rule_def rapidity_rule_def)
  have rest: "twr_Eta (ProcessTowers_entry ext ev r) = eta_rule ext (Momentum (ev r)) \<and>
   pho_Eta (ProcessPhotons_entry ext ev r) = eta_rule ext (Momentum (ev r)) \<and>
   ele_Eta (ProcessElectrons_entry ext ev r) = eta_rule ext (Momentum (ev r)) \<and>
   mu_Eta (ProcessMuons_entry ext ev r) = eta_rule ext (Momentum (ev r))"
    by (simp add: ProcessTowers_entry_def ProcessPhotons_entry_def ProcessElectrons_entry_def
        ProcessMuons_entry_def Let_def eta_rule_def)
  from gen have cases: "(\<bar>CosTheta ext (Momentum (ev r))\<bar> = 1 \<longrightarrow>
      gen_Eta (ProcessParticles_entry ext ev r) =
        (if fZ (Momentum (ev r)) \<ge> 0 then 1 else - 1) * 999.9 \<and>
      gen_Rapidity (ProcessParticles_entry ext ev r) =
        (if fZ (Momentum (ev r)) \<ge> 0 then 1 else - 1) * 999.9) \<and>
   (\<bar>CosTheta ext (Momentum (ev r))\<bar> \<noteq> 1 \<longrightarrow>
      gen_Eta (ProcessParticles_entry ext ev r) = Eta ext (Momentum (ev r)) \<and>
      gen_Rapidity (ProcessParticles_entry ext ev r) = Rapidity ext (Momentum (ev r)))"
    by (simp add: eta_rule_def rapidity_rule_def)
  have projectors: "map entry_Eta (ProcessParticles ext ev [] array) =
     map (\<lambda>r. Some (eta_rule ext (Momentum (ev r)))) array \<and>
   map entry_Rapidity (ProcessParticles ext ev [] array) =
     map (\<lambda>r. Some (rapidity_rule ext (Momentum (ev r)))) array \<and>
   map entry_Eta (ProcessTowers ext ev [] array) =
     map (\<lambda>r. Some (eta_rule ext (Momentum (ev r)))) array \<and>
   map entry_Eta (fst (ProcessPhotons ext ev [] array)) =
     map (\<lambda>r. Some (eta_rule ext (Momentum (ev r)))) (Sort ext ev array) \<and>
   map entry_Eta (fst (ProcessElectrons ext ev [] array)) =
     map (\<lambda>r. Some (eta_rule ext (Momentum (ev r)))) (Sort ext ev array) \<and>
   map entry_Eta (fst (ProcessMuons ext ev [] array)) =
     map (\<lambda>r. Some (eta_rule ext (Momentum (ev r)))) (Sort ext ev array) \<and>
   map entry_Eta (fst (ProcessJets ext ev [] array)) =
     map (\<lambda>r. Some (eta_rule ext (Momentum (ev r)))) (Sort ext ev array)"
    if "\<And>r. gen_Eta (ProcessParticles_entry ext ev r) = eta_rule ext (Momentum (ev r)) \<and>
          gen_Rapidity (ProcessParticles_entry ext ev r) = rapidity_rule ext (Momentum (ev r)) \<and>
          twr_Eta (ProcessTowers_entry ext ev r) = eta_rule ext (Momentum (ev r)) \<and>
          pho_Eta (ProcessPhotons_entry ext ev r) = eta_rule ext (Momentum (ev r)) \<and>
          ele_Eta (ProcessElectrons_entry ext ev r) = eta_rule ext (Momentum (ev r)) \<and>
          mu_Eta (ProcessMuons_entry ext ev r) = eta_rule ext (Momentum (ev r)) \<and>
          jet_Eta (ProcessJets_entry ext ev r) = eta_rule ext (Momentum (ev r))"
    using that
    by (simp add: ProcessParticles_def ProcessTowers_def ProcessPhotons_def ProcessElectrons_def
        ProcessMuons_def ProcessJets_def ProcessParticles_loop_append ProcessTowers_loop_append
        ProcessPhotons_loop_append ProcessElectrons_loop_append ProcessMuons_loop_append
        ProcessJets_loop_append Let_def entry_Eta_def entry_Rapidity_def comp_def)
  have entries: "gen_Eta (ProcessParticles_entry ext ev r') = eta_rule ext (Momentum (ev r')) \<and>
          gen_Rapidity (ProcessParticles_entry ext ev r') = rapidity_rule ext (Momentum (ev r')) \<and>
          twr_Eta (ProcessTowers_entry ext ev r') = eta_rule ext (Momentum (ev r')) \<and>
          pho_Eta (ProcessPhotons_entry ext ev r') = eta_rule ext (Momentum (ev r')) \<and>
          ele_Eta (ProcessElectrons_entry ext ev r') = eta_rule ext (Momentum (ev r')) \<and>
          mu_Eta (ProcessMuons_entry ext ev r') = eta_rule ext (Momentum (ev r')) \<and>
          jet_Eta (ProcessJets_entry ext ev r') = eta_rule ext (Momentum (ev r'))" for r'
    by (simp add: ProcessParticles_entry_def ProcessTowers_entry_def ProcessPhotons_entry_def
        ProcessElectrons_entry_def ProcessMuons_entry_def ProcessJets_entry_def Let_def
        eta_rule_def rapidity_rule_def split_def)
  have tracks: "\<forall>out. ProcessTracks ext ev [] array = Inr out \<longrightarrow>
      map entry_EtaOuter out = map (\<lambda>r. Some (eta_rule ext (Position (ev r)))) array \<and>
      map entry_Eta out = map (\<lambda>r. Some (eta_rule ext (Momentum (ev r)))) array"
    using ProcessTracks_loop_eta [of ext ev array "[]"]
    by (simp add: ProcessTracks_def)
  have met: "map entry_Eta (ProcessMissingET ext ev [] (r # array)) =
     [Some (Eta ext (neg (Momentum (ev r))))]"
    by (simp add: ProcessMissingET_def At0_def Let_def entry_Eta_def)
  from cases gen trk rest jet projectors [OF entries] tracks met show ?thesis by blast
qed

theorem degenerate_axis_rule_witness:
  "\<bar>CosTheta example_externals (Momentum (beam_event 0))\<bar> = 1 \<and>
   gen_Eta (ProcessParticles_entry example_externals beam_event 0) = - 999.9 \<and>
   gen_Rapidity (ProcessParticles_entry example_externals beam_event 0) = - 999.9 \<and>
   \<bar>CosTheta example_externals (Momentum (beam_event 1))\<bar> \<noteq> 1 \<and>
   gen_Eta (ProcessParticles_entry example_externals beam_event 1) =
     Eta example_externals \<lparr>fX = 3, fY = 4, fZ = 0, fE = 5\<rparr> \<and>
   gen_Rapidity (ProcessParticles_entry example_externals beam_event 1) =
     Rapidity example_externals \<lparr>fX = 3, fY = 4, fZ = 0, fE = 5\<rparr> \<and>
   (\<exists>t. ProcessTracks_entry example_externals track_event 0 = Inr t \<and>
        trk_EtaOuter t = 999.9 \<and> trk_Eta t = 999.9)"
proof -
  have c0: "\<bar>CosTheta example_externals (Momentum (beam_event 0))\<bar> = 1"
    by (simp add: example_externals_def beam_event_def)
  have c1: "\<bar>CosTheta example_externals (Momentum (beam_event 1))\<bar> \<noteq> 1"
    by (simp add: example_externals_def beam_event_def)
  from track_event_entry obtain t
    where t: "ProcessTracks_entry example_externals track_event 0 = Inr t"
    by blast
  with degenerate_axis_rule [of example_externals track_event 0]
  have "trk_EtaOuter t = 999.9 \<and> trk_Eta t = 999.9"
    by (simp add: eta_rule_def example_externals_def track_event_def Candidate0_def)
  with t have trk: "\<exists>t. ProcessTracks_entry example_externals track_event 0 = Inr t \<and>
        trk_EtaOuter t = 999.9 \<and> trk_Eta t = 999.9"
    by blast
  from c0 c1 trk
    degenerate_axis_rule [of example_externals beam_event 0]
    degenerate_axis_rule [of example_externals beam_event 1]
  show ?thesis
    by (simp add: beam_event_def)
qed


text \<open>
  A missing-energy candidate whose momentum lies on the beam axis: the rule would give
  \<open>999.9\<close> for the negated momentum, the record holds the library's \<open>10e10\<close>.
\<close>

theorem missing_energy_eta_counterexample:
  "\<bar>CosTheta example_externals (neg (Momentum (beam_event 0)))\<bar> = 1 \<and>
   eta_rule example_externals (neg (Momentum (beam_event 0))) = 999.9 \<and>
   map entry_Eta (ProcessMissingET example_externals beam_event [] [0]) = [Some 100000000000] \<and>
   map entry_Eta (ProcessMissingET example_externals beam_event [] [0]) \<noteq>
     [Some (eta_rule example_externals (neg (Momentum (beam_event 0))))]"
  by (simp add: ProcessMissingET_def At0_def Let_def entry_Eta_def eta_rule_def neg_def
      example_externals_def beam_event_def)

subsection \<open>Hadronic over electromagnetic energy\<close>

lemma ProcessJets_itConstituents_sum:
  "ProcessJets_itConstituents ev it (cs, ecal, hcal) =
     (cs @ it, ecal + sum_list (map (\<lambda>c. Eem (ev c)) it), hcal + sum_list (map (\<lambda>c. Ehad (ev c)) it))"
  by (induction it arbitrary: cs ecal hcal) (simp_all add: Add_def)

lemma ProcessJets_itRefs_append: "ProcessJets_itRefs it array = array @ it"
  by (induction it arbitrary: array) (simp_all add: Add_def)

text \<open>
  C5 (as amended).  The photon entry holds \<open>Ehad / Eem\<close> when \<open>Eem > 0\<close> and \<open>999.9\<close>
  otherwise.  The jet entry holds the ratio of the sums of \<open>Ehad\<close> and \<open>Eem\<close> over the jet's
  direct constituents when the electromagnetic sum is positive, and \<open>999.9\<close> when it is
  zero or negative.  The electron entry holds \<open>0\<close>.
\<close>

theorem hadronic_over_em:
  "pho_EhadOverEem (ProcessPhotons_entry ext ev r) =
     (if Eem (ev r) > 0 then Ehad (ev r) / Eem (ev r) else 999.9) \<and>
   jet_Constituents (ProcessJets_entry ext ev r) = Candidates (ev r) \<and>
   jet_EhadOverEem (ProcessJets_entry ext ev r) =
     (if sum_list (map (\<lambda>c. Eem (ev c)) (Candidates (ev r))) > 0
      then sum_list (map (\<lambda>c. Ehad (ev c)) (Candidates (ev r))) /
           sum_list (map (\<lambda>c. Eem (ev c)) (Candidates (ev r)))
      else 999.9) \<and>
   ele_EhadOverEem (ProcessElectrons_entry ext ev r) = 0"
  by (simp add: ProcessPhotons_entry_def ProcessJets_entry_def ProcessElectrons_entry_def
      ProcessJets_itConstituents_sum Let_def)

text \<open>
  A jet whose electromagnetic sum is \<open>-1\<close>: the sum is not zero, and the entry holds the
  sentinel, not the ratio \<open>-5\<close>.
\<close>

theorem jet_negative_em_sum_counterexample:
  "sum_list (map (\<lambda>c. Eem (jet_event c)) (Candidates (jet_event 0))) \<noteq> 0 \<and>
   jet_EhadOverEem (ProcessJets_entry example_externals jet_event 0) \<noteq>
     sum_list (map (\<lambda>c. Ehad (jet_event c)) (Candidates (jet_event 0))) /
     sum_list (map (\<lambda>c. Eem (jet_event c)) (Candidates (jet_event 0))) \<and>
   jet_EhadOverEem (ProcessJets_entry example_externals jet_event 0) = 999.9"
  by (simp add: ProcessJets_entry_def ProcessJets_itConstituents_sum Let_def jet_event_def
      Candidate0_def)

subsection \<open>Missing energy\<close>

lemma sqrt_25: "sqrt 25 = 5"
  using real_sqrt_abs [of 5] by simp

text \<open>
  C6.  On an array that is not empty the missing-energy projector emits one record, made
  from the first entry: its \<open>MET\<close> is the transverse magnitude of the momentum, its \<open>Eta\<close> and
  \<open>Phi\<close> are those of the negated momentum.  For the momentum \<open>(3, 4, 0, 5)\<close> the record has
  \<open>MET = 5\<close> and the angles of \<open>(-3, -4, 0, -5)\<close>.
\<close>

theorem missing_energy_record:
  "ProcessMissingET ext ev [] (r # array) =
     [EMissingET \<lparr>met_Eta = Eta ext (neg (Momentum (ev r))),
                  met_Phi = Phi ext (neg (Momentum (ev r))),
                  met_MET = Pt ext (Momentum (ev r))\<rparr>] \<and>
   (Pt ext = transverse \<and> Momentum (ev r) = \<lparr>fX = 3, fY = 4, fZ = 0, fE = 5\<rparr> \<longrightarrow>
      ProcessMissingET ext ev [] (r # array) =
        [EMissingET \<lparr>met_Eta = Eta ext \<lparr>fX = - 3, fY = - 4, fZ = 0, fE = - 5\<rparr>,
                     met_Phi = Phi ext \<lparr>fX = - 3, fY = - 4, fZ = 0, fE = - 5\<rparr>,
                     met_MET = 5\<rparr>])"
  by (simp add: ProcessMissingET_def At0_def Let_def neg_def transverse_def sqrt_25)

theorem missing_energy_record_witness:
  "Pt example_externals = transverse \<and>
   Momentum (beam_event 1) = \<lparr>fX = 3, fY = 4, fZ = 0, fE = 5\<rparr> \<and>
   ProcessMissingET example_externals beam_event [] [1, 0] =
     [EMissingET \<lparr>met_Eta = Eta example_externals \<lparr>fX = - 3, fY = - 4, fZ = 0, fE = - 5\<rparr>,
                  met_Phi = Phi example_externals \<lparr>fX = - 3, fY = - 4, fZ = 0, fE = - 5\<rparr>,
                  met_MET = 5\<rparr>]"
proof -
  have p: "Pt example_externals = transverse"
    by (simp add: example_externals_def)
  have m: "Momentum (beam_event 1) = \<lparr>fX = 3, fY = 4, fZ = 0, fE = 5\<rparr>"
    by (simp add: beam_event_def)
  from p m missing_energy_record [of example_externals beam_event 1 "[0]"]
  show ?thesis by blast
qed


subsection \<open>The track assertion\<close>

lemma compare_within_tolerance: "compare a b = within_tolerance a b"
proof (cases "a = 0")
  case True
  then show ?thesis
    by (auto simp: compare_def within_tolerance_def Let_def)
next
  case False
  then have "\<bar>(a - b) / a\<bar> \<le> 1 / 10 ^ 9 \<longleftrightarrow> \<bar>a - b\<bar> \<le> \<bar>a\<bar> / 10 ^ 9"
    by (simp add: field_simps)
  with False show ?thesis
    by (auto simp: compare_def within_tolerance_def Let_def not_less)
qed

lemma check_d0_z0_tolerance:
  "check_d0_z0 ext t =
     (within_tolerance (trk_Zd t) (trk_trkPar t ! Z0 ext) \<and>
      within_tolerance (trk_Dxy t) (trk_trkPar t ! D0 ext))"
  by (simp add: check_d0_z0_def compare_within_tolerance)

lemma ProcessTracks_entry_cases:
  assumes "Z0 ext < 5" "D0 ext < 5"
  shows "(ProcessTracks_entry ext ev r = Inl AssertionFailed) = (\<not> track_consistent ext ev r)"
    and "(ProcessTracks_entry ext ev r = Inl NullPointer) =
           (track_consistent ext ev r \<and> \<not> has_particle ev r)"
    and "(\<exists>t. ProcessTracks_entry ext ev r = Inr t) =
           (track_consistent ext ev r \<and> has_particle ev r)"
  using assms
  by (auto simp: ProcessTracks_entry_def Let_def check_d0_z0_tolerance track_consistent_def
      has_particle_def At0_def split: list.splits)

lemma ProcessTracks_loop_completes:
  assumes "Z0 ext < 5" "D0 ext < 5"
  shows "list_all (track_consistent ext ev) it \<Longrightarrow> list_all (has_particle ev) it \<Longrightarrow>
     \<exists>ts. ProcessTracks_loop ext ev it branch = Inr (branch @ map ETrack ts) \<and>
          map (ProcessTracks_entry ext ev) it = map Inr ts"
proof (induction it arbitrary: branch)
  case Nil
  then show ?case by simp
next
  case (Cons r it)
  from Cons.prems ProcessTracks_entry_cases(3) [OF assms, of ev r]
  obtain t where t: "ProcessTracks_entry ext ev r = Inr t"
    by auto
  from Cons.prems Cons.IH [of "branch @ [ETrack t]"]
  obtain ts where ts: "ProcessTracks_loop ext ev it (branch @ [ETrack t]) =
        Inr ((branch @ [ETrack t]) @ map ETrack ts)"
      "map (ProcessTracks_entry ext ev) it = map Inr ts"
    by auto
  from t ts have "ProcessTracks_loop ext ev (r # it) branch = Inr (branch @ map ETrack (t # ts)) \<and>
     map (ProcessTracks_entry ext ev) (r # it) = map Inr (t # ts)"
    by simp
  then show ?case by blast
qed

lemma ProcessTracks_loop_no_assertion:
  assumes "Z0 ext < 5" "D0 ext < 5"
  shows "list_all (track_consistent ext ev) it \<Longrightarrow>
     ProcessTracks_loop ext ev it branch \<noteq> Inl AssertionFailed"
proof (induction it arbitrary: branch)
  case Nil
  then show ?case by simp
next
  case (Cons r it)
  from Cons.prems ProcessTracks_entry_cases(1) [OF assms, of ev r]
  have "ProcessTracks_entry ext ev r \<noteq> Inl AssertionFailed"
    by simp
  with Cons show ?case
    by (cases "ProcessTracks_entry ext ev r") (auto split: sum.splits error.splits)
qed

lemma track_event_consistent:
  "Z0 example_externals < 5 \<and> D0 example_externals < 5 \<and>
   list_all (track_consistent example_externals track_event) [0] \<and>
   list_all (has_particle track_event) [0]"
  by (simp add: example_externals_def track_consistent_def within_tolerance_def has_particle_def
      track_event_def Candidate0_def)

lemma call_array:
  "call ext ev m branch array = Inr (branch', array') \<Longrightarrow>
     array' = (if sorts m then Sort ext ev array else array)"
  by (cases m)
     (auto simp: ProcessPhotons_def ProcessElectrons_def ProcessMuons_def ProcessJets_def Let_def
           split: sum.splits)

subsection \<open>One record per candidate\<close>

text \<open>
  C4 (as amended).  Every per-candidate projector appends to its branch one entry per
  candidate of the array as it stands at projection time, in the order of the array: the
  particle, vertex, tower, pileup-density and far-detector projectors for the array as
  given; the photon, electron, muon and jet projectors for the array after
  \<^verbatim>\<open>array->Sort()\<close>, which they leave sorted (\<open>N\<close> records when the sort keeps the length); the
  track projector for the array as given, provided every track satisfies the consistency
  relation of the assertion and has a first child.  No projector outside the four sorting
  ones changes its array.
\<close>

theorem projectors_one_record_per_candidate:
  "ProcessParticles ext ev branch array =
     branch @ map (\<lambda>r. EGenParticle (ProcessParticles_entry ext ev r)) array \<and>
   ProcessVertices ext ev branch array =
     branch @ map (\<lambda>r. EVertex (ProcessVertices_entry ev r)) array \<and>
   (Z0 ext < 5 \<and> D0 ext < 5 \<and> list_all (track_consistent ext ev) array \<and>
    list_all (has_particle ev) array \<longrightarrow>
      (\<exists>ts. ProcessTracks ext ev branch array = Inr (branch @ map ETrack ts) \<and>
            map (ProcessTracks_entry ext ev) array = map Inr ts)) \<and>
   ProcessTowers ext ev branch array =
     branch @ map (\<lambda>r. ETower (ProcessTowers_entry ext ev r)) array \<and>
   ProcessPhotons ext ev branch array =
     (branch @ map (\<lambda>r. EPhoton (ProcessPhotons_entry ext ev r)) (Sort ext ev array),
      Sort ext ev array) \<and>
   ProcessElectrons ext ev branch array =
     (branch @ map (\<lambda>r. EElectron (ProcessElectrons_entry ext ev r)) (Sort ext ev array),
      Sort ext ev array) \<and>
   ProcessMuons ext ev branch array =
     (branch @ map (\<lambda>r. EMuon (ProcessMuons_entry ext ev r)) (Sort ext ev array),
      Sort ext ev array) \<and>
   ProcessJets ext ev branch array =
     (branch @ map (\<lambda>r. EJet (ProcessJets_entry ext ev r)) (Sort ext ev array),
      Sort ext ev array) \<and>
   ProcessRho ext ev branch array =
     branch @ map (\<lambda>r. ERho (ProcessRho_entry ev r)) array \<and>
   ProcessHectorHit ext ev branch array =
     branch @ map (\<lambda>r. EHectorHit (ProcessHectorHit_entry ev r)) array \<and>
   (length (Sort ext ev array) = length array \<longrightarrow>
      length (fst (ProcessPhotons ext ev [] array)) = length array \<and>
      length (fst (ProcessElectrons ext ev [] array)) = length array \<and>
      length (fst (ProcessMuons ext ev [] array)) = length array \<and>
      length (fst (ProcessJets ext ev [] array)) = length array) \<and>
   (\<forall>branch' array'. \<not> sorts m \<and>
      call ext ev m branch array = Inr (branch', array') \<longrightarrow> array' = array)"
proof -
  have trk: "Z0 ext < 5 \<and> D0 ext < 5 \<and> list_all (track_consistent ext ev) array \<and>
    list_all (has_particle ev) array \<longrightarrow>
      (\<exists>ts. ProcessTracks ext ev branch array = Inr (branch @ map ETrack ts) \<and>
            map (ProcessTracks_entry ext ev) array = map Inr ts)"
    using ProcessTracks_loop_completes [of ext ev array branch]
    by (simp add: ProcessTracks_def)
  have nosort: "\<forall>branch' array'. \<not> sorts m \<and>
      call ext ev m branch array = Inr (branch', array') \<longrightarrow> array' = array"
    using call_array [of ext ev m branch array] by auto
  have plain: "ProcessParticles ext ev branch array =
     branch @ map (\<lambda>r. EGenParticle (ProcessParticles_entry ext ev r)) array \<and>
   ProcessVertices ext ev branch array =
     branch @ map (\<lambda>r. EVertex (ProcessVertices_entry ev r)) array \<and>
   ProcessTowers ext ev branch array =
     branch @ map (\<lambda>r. ETower (ProcessTowers_entry ext ev r)) array \<and>
   ProcessRho ext ev branch array =
     branch @ map (\<lambda>r. ERho (ProcessRho_entry ev r)) array \<and>
   ProcessHectorHit ext ev branch array =
     branch @ map (\<lambda>r. EHectorHit (ProcessHectorHit_entry ev r)) array"
    by (simp add: ProcessParticles_def ProcessVertices_def ProcessTowers_def ProcessRho_def
        ProcessHectorHit_def ProcessParticles_loop_append ProcessVertices_loop_append
        ProcessTowers_loop_append ProcessRho_loop_append ProcessHectorHit_loop_append)
  have sorting: "ProcessPhotons ext ev b array =
     (b @ map (\<lambda>r. EPhoton (ProcessPhotons_entry ext ev r)) (Sort ext ev array),
      Sort ext ev array) \<and>
   ProcessElectrons ext ev b array =
     (b @ map (\<lambda>r. EElectron (ProcessElectrons_entry ext ev r)) (Sort ext ev array),
      Sort ext ev array) \<and>
   ProcessMuons ext ev b array =
     (b @ map (\<lambda>r. EMuon (ProcessMuons_entry ext ev r)) (Sort ext ev array),
      Sort ext ev array) \<and>
   ProcessJets ext ev b array =
     (b @ map (\<lambda>r. EJet (ProcessJets_entry ext ev r)) (Sort ext ev array),
      Sort ext ev array)" for b
    by (simp add: ProcessPhotons_def ProcessElectrons_def ProcessMuons_def ProcessJets_def
        ProcessPhotons_loop_append ProcessElectrons_loop_append ProcessMuons_loop_append
        ProcessJets_loop_append Let_def)
  have len: "length (Sort ext ev array) = length array \<longrightarrow>
      length (fst (ProcessPhotons ext ev [] array)) = length array \<and>
      length (fst (ProcessElectrons ext ev [] array)) = length array \<and>
      length (fst (ProcessMuons ext ev [] array)) = length array \<and>
      length (fst (ProcessJets ext ev [] array)) = length array"
    by (simp add: sorting [of "[]"])
  from trk nosort plain sorting [of branch] len show ?thesis
    by blast
qed

theorem projectors_one_record_per_candidate_witness:
  "Z0 example_externals < 5 \<and> D0 example_externals < 5 \<and>
   list_all (track_consistent example_externals track_event) [0] \<and>
   list_all (has_particle track_event) [0] \<and>
   (\<exists>ts. ProcessTracks example_externals track_event [] [0] = Inr (map ETrack ts) \<and>
         length ts = 1) \<and>
   length (Sort example_externals beam_event [0, 1]) = 2 \<and>
   snd (ProcessPhotons example_externals beam_event [] [0, 1]) = [1, 0] \<and>
   length (fst (ProcessPhotons example_externals beam_event [] [0, 1])) = 2 \<and>
   \<not> sorts MProcessRho \<and>
   call example_externals beam_event MProcessRho [] [0, 1] =
     Inr (map (\<lambda>r. ERho (ProcessRho_entry beam_event r)) [0, 1], [0, 1])"
proof -
  note ok = track_event_consistent
  from ok projectors_one_record_per_candidate [of example_externals track_event "[]" "[0]"]
  obtain ts where ts: "ProcessTracks example_externals track_event [] [0] = Inr ([] @ map ETrack ts)"
    "map (ProcessTracks_entry example_externals track_event) [0] = map Inr ts"
    by blast
  from ts(2) have "length ts = 1"
    by (metis length_map length_Cons list.size(3) One_nat_def)
  with ts(1) have trk: "\<exists>ts. ProcessTracks example_externals track_event [] [0] = Inr (map ETrack ts) \<and>
         length ts = 1"
    by auto
  have srt: "Sort example_externals beam_event [0, 1] = [1, 0]"
    by (simp add: example_externals_def beam_event_def transverse_def sqrt_25)
  from srt projectors_one_record_per_candidate [of example_externals beam_event "[]" "[0, 1]" MProcessRho]
  have rest: "length (Sort example_externals beam_event [0, 1]) = 2 \<and>
   snd (ProcessPhotons example_externals beam_event [] [0, 1]) = [1, 0] \<and>
   length (fst (ProcessPhotons example_externals beam_event [] [0, 1])) = 2 \<and>
   \<not> sorts MProcessRho \<and>
   call example_externals beam_event MProcessRho [] [0, 1] =
     Inr (map (\<lambda>r. ERho (ProcessRho_entry beam_event r)) [0, 1], [0, 1])"
    by simp
  from ok trk rest show ?thesis by blast
qed

text \<open>
  A track array of one candidate that fails the assertion: the projector stops and does
  not deliver one record.
\<close>

theorem track_projector_abort_counterexample:
  "ProcessTracks example_externals inconsistent_track_event [] [0] = Inl AssertionFailed"
  by (simp add: ProcessTracks_def ProcessTracks_entry_def inconsistent_track_event_def
      Candidate0_def example_externals_def check_d0_z0_def compare_def Let_def)

text \<open>
  C9 (as amended).  The assertion of the track projector holds exactly when the copied
  \<open>Zd\<close> equals the copied \<open>trkPar[Z0]\<close> and the copied \<open>Dxy\<close> equals the copied \<open>trkPar[D0]\<close>, each up to
  an absolute tolerance of \<open>1e-15\<close> or a relative tolerance of \<open>1e-9\<close>.  When every track of the
  input satisfies the relation, the assertion never fails; when in addition every track
  has a first child, the projector completes with one entry per track.
\<close>

theorem track_assertion:
  "check_d0_z0 ext t =
     (within_tolerance (trk_Zd t) (trk_trkPar t ! Z0 ext) \<and>
      within_tolerance (trk_Dxy t) (trk_trkPar t ! D0 ext)) \<and>
   (Z0 ext < 5 \<and> D0 ext < 5 \<longrightarrow>
      (ProcessTracks_entry ext ev r = Inl AssertionFailed) = (\<not> track_consistent ext ev r)) \<and>
   (Z0 ext < 5 \<and> D0 ext < 5 \<and> list_all (track_consistent ext ev) array \<longrightarrow>
      ProcessTracks ext ev branch array \<noteq> Inl AssertionFailed) \<and>
   (Z0 ext < 5 \<and> D0 ext < 5 \<and> list_all (track_consistent ext ev) array \<and>
    list_all (has_particle ev) array \<longrightarrow>
      (\<exists>ts. ProcessTracks ext ev branch array = Inr (branch @ map ETrack ts) \<and>
            length ts = length array))"
proof -
  have completes: "Z0 ext < 5 \<and> D0 ext < 5 \<and> list_all (track_consistent ext ev) array \<and>
    list_all (has_particle ev) array \<longrightarrow>
      (\<exists>ts. ProcessTracks ext ev branch array = Inr (branch @ map ETrack ts) \<and>
            length ts = length array)"
  proof (intro impI)
    assume a: "Z0 ext < 5 \<and> D0 ext < 5 \<and> list_all (track_consistent ext ev) array \<and>
      list_all (has_particle ev) array"
    with ProcessTracks_loop_completes [of ext ev array branch]
    obtain ts where ts: "ProcessTracks_loop ext ev array branch = Inr (branch @ map ETrack ts)"
      "map (ProcessTracks_entry ext ev) array = map Inr ts"
      by blast
    from ts(2) have "length ts = length array"
      by (metis length_map)
    with ts(1) show "\<exists>ts. ProcessTracks ext ev branch array = Inr (branch @ map ETrack ts) \<and>
            length ts = length array"
      by (auto simp: ProcessTracks_def)
  qed
  from completes check_d0_z0_tolerance [of ext t] ProcessTracks_entry_cases(1) [of ext ev r]
    ProcessTracks_loop_no_assertion [of ext ev array branch]
  show ?thesis
    by (simp add: ProcessTracks_def)
qed

theorem track_assertion_witness:
  "Z0 example_externals < 5 \<and> D0 example_externals < 5 \<and>
   list_all (track_consistent example_externals track_event) [0] \<and>
   list_all (has_particle track_event) [0] \<and>
   ProcessTracks_entry example_externals track_event 0 \<noteq> Inl AssertionFailed \<and>
   ProcessTracks example_externals track_event [] [0] \<noteq> Inl AssertionFailed \<and>
   (\<exists>ts. ProcessTracks example_externals track_event [] [0] = Inr (map ETrack ts) \<and>
         length ts = 1)"
proof -
  note ok = track_event_consistent
  from ok track_assertion [of example_externals _ track_event 0 "[0]" "[]"]
  show ?thesis by simp
qed

text \<open>
  A track that satisfies the relation and has no children: the projector does not
  complete, it stops at the null pointer returned by \<^verbatim>\<open>At(0)\<close>.
\<close>

theorem track_without_particle_counterexample:
  "list_all (track_consistent example_externals orphan_track_event) [0] \<and>
   ProcessTracks example_externals orphan_track_event [] [0] = Inl NullPointer"
  by (simp add: ProcessTracks_def ProcessTracks_entry_def orphan_track_event_def
      Candidate0_def example_externals_def check_d0_z0_def compare_def Let_def At0_def
      track_consistent_def within_tolerance_def)


subsection \<open>Initialization\<close>

lemma sorted_arrays_Cons:
  "sorted_arrays ((b, m, a) # reg) = (if sorts m then a # sorted_arrays reg else sorted_arrays reg)"
  by (simp add: sorted_arrays_def)

lemma unsorted_arrays_Cons:
  "unsorted_arrays ((b, m, a) # reg) =
     (if sorts m then unsorted_arrays reg else a # unsorted_arrays reg)"
  by (simp add: unsorted_arrays_def)













subsection \<open>Two passes over one event\<close>

lemma call_sorted_same:
  assumes "\<forall>xs. Sort ext ev (Sort ext ev xs) = Sort ext ev xs" and "sorts m"
  shows "call ext ev m branch (Sort ext ev array) = call ext ev m branch array"
  using assms
  by (cases m)
     (simp_all add: ProcessPhotons_def ProcessElectrons_def ProcessMuons_def ProcessJets_def
        Let_def)

lemma Process_loop_final_arrays:
  assumes idem: "\<forall>xs. Sort ext ev (Sort ext ev xs) = Sort ext ev xs"
  shows "Process_loop ext ev reg (arrs, tr) = Inr (arrs', tr') \<Longrightarrow>
     arrs' a = arrs a \<or> (a \<in> set (sorted_arrays reg) \<and> arrs' a = Sort ext ev (arrs a))"
proof (induction reg arbitrary: arrs tr)
  case Nil
  then show ?case by simp
next
  case (Cons x reg)
  obtain b m a0 where x: "x = (b, m, a0)"
    by (cases x) auto
  from Cons.prems x obtain b' a' where
    c: "call ext ev m (tr b) (arrs a0) = Inr (b', a')" and
    rest: "Process_loop ext ev reg (arrs(a0 := a'), tr(b := b')) = Inr (arrs', tr')"
    by (auto split: sum.splits)
  from call_array [OF c] have a': "a' = (if sorts m then Sort ext ev (arrs a0) else arrs a0)" .
  from Cons.IH [OF rest]
  have ih: "arrs' a = (arrs(a0 := a')) a \<or>
      (a \<in> set (sorted_arrays reg) \<and> arrs' a = Sort ext ev ((arrs(a0 := a')) a))" .
  show ?case
  proof (cases "a = a0")
    case False
    with ih show ?thesis
      by (auto simp: x sorted_arrays_Cons)
  next
    case True
    with ih a' idem show ?thesis
      by (auto simp: x sorted_arrays_Cons split: if_splits)
  qed
qed

lemma Process_loop_simulation:
  assumes idem: "\<forall>xs. Sort ext ev (Sort ext ev xs) = Sort ext ev xs"
  shows "\<forall>a. arrs2 a = arrs a \<or>
            (a \<notin> set (unsorted_arrays reg) \<and> arrs2 a = Sort ext ev (arrs a)) \<Longrightarrow>
     Process_loop ext ev reg (arrs, tr) = Inr (arrs', tr') \<Longrightarrow>
     \<exists>arrs2'. Process_loop ext ev reg (arrs2, tr) = Inr (arrs2', tr')"
proof (induction reg arbitrary: arrs arrs2 tr)
  case Nil
  then show ?case by simp
next
  case (Cons x reg)
  obtain b m a0 where x: "x = (b, m, a0)"
    by (cases x) auto
  from Cons.prems(2) x obtain b' a' where
    c: "call ext ev m (tr b) (arrs a0) = Inr (b', a')" and
    rest: "Process_loop ext ev reg (arrs(a0 := a'), tr(b := b')) = Inr (arrs', tr')"
    by (auto split: sum.splits)
  from call_array [OF c] have a': "a' = (if sorts m then Sort ext ev (arrs a0) else arrs a0)" .
  have same: "call ext ev m (tr b) (arrs2 a0) = Inr (b', a')"
  proof (cases "sorts m")
    case True
    from Cons.prems(1) have "arrs2 a0 = arrs a0 \<or> arrs2 a0 = Sort ext ev (arrs a0)"
      by blast
    with c call_sorted_same [OF idem True, of "tr b" "arrs a0"] show ?thesis
      by auto
  next
    case False
    with Cons.prems(1) x have "arrs2 a0 = arrs a0"
      by (auto simp: unsorted_arrays_Cons)
    with c show ?thesis by simp
  qed
  have rel: "\<forall>a. (arrs2(a0 := a')) a = (arrs(a0 := a')) a \<or>
            (a \<notin> set (unsorted_arrays reg) \<and>
             (arrs2(a0 := a')) a = Sort ext ev ((arrs(a0 := a')) a))"
    using Cons.prems(1) by (auto simp: x unsorted_arrays_Cons split: if_splits)
  from Cons.IH [OF rel rest] obtain arrs2' where
    "Process_loop ext ev reg (arrs2(a0 := a'), tr(b := b')) = Inr (arrs2', tr')"
    by blast
  with same show ?case
    by (auto simp: x)
qed

lemma example_sort_idem:
  "Sort example_externals ev (Sort example_externals ev xs) = Sort example_externals ev xs"
  by (simp add: example_externals_def sort_key_id_if_sorted)

lemma example_sort_beam:
  "Sort example_externals beam_event [0, Suc 0] = [Suc 0, 0]"
  "Sort example_externals beam_event [Suc 0, 0] = [Suc 0, 0]"
  by (simp_all add: example_externals_def beam_event_def transverse_def sqrt_25)

lemma beam_entries_differ:
  "ProcessParticles_entry example_externals beam_event 0 \<noteq>
   ProcessParticles_entry example_externals beam_event 1"
proof
  assume "ProcessParticles_entry example_externals beam_event 0 =
    ProcessParticles_entry example_externals beam_event 1"
  then have "gen_Px (ProcessParticles_entry example_externals beam_event 0) =
    gen_Px (ProcessParticles_entry example_externals beam_event 1)"
    by simp
  then show False
    by (simp add: ProcessParticles_entry_def beam_event_def Let_def)
qed

text \<open>
  C8 (as amended).  When sorting a sorted array leaves it as it is, and no input array is
  bound both to a sorting projector (photon, electron, muon, jet) and to a projector that
  does not sort, a second pass over the arrays as the first pass left them completes and
  fills every branch with the same entries as the first.
\<close>

theorem two_passes_same_records:
  "(\<forall>xs. Sort ext ev (Sort ext ev xs) = Sort ext ev xs) \<and>
   set (sorted_arrays reg) \<inter> set (unsorted_arrays reg) = {} \<and>
   run_pass ext ev reg arrs = Inr (arrs1, tr1) \<longrightarrow>
     (\<exists>arrs2. second_pass ext ev reg arrs = Inr (arrs2, tr1)) \<and>
     (\<forall>branch. branch_of (second_pass ext ev reg arrs) branch =
                branch_of (run_pass ext ev reg arrs) branch)"
proof (intro impI)
  assume a: "(\<forall>xs. Sort ext ev (Sort ext ev xs) = Sort ext ev xs) \<and>
   set (sorted_arrays reg) \<inter> set (unsorted_arrays reg) = {} \<and>
   run_pass ext ev reg arrs = Inr (arrs1, tr1)"
  then have idem: "\<forall>xs. Sort ext ev (Sort ext ev xs) = Sort ext ev xs"
    and disj: "set (sorted_arrays reg) \<inter> set (unsorted_arrays reg) = {}"
    and p1: "Process_loop ext ev reg (arrs, \<lambda>branch. []) = Inr (arrs1, tr1)"
    by (simp_all add: run_pass_def)
  have "\<forall>a. arrs1 a = arrs a \<or>
            (a \<notin> set (unsorted_arrays reg) \<and> arrs1 a = Sort ext ev (arrs a))"
    using Process_loop_final_arrays [OF idem p1] disj by blast
  from Process_loop_simulation [OF idem this p1] obtain arrs2 where
    p2: "Process_loop ext ev reg (arrs1, \<lambda>branch. []) = Inr (arrs2, tr1)"
    by blast
  with p1 have s: "second_pass ext ev reg arrs = Inr (arrs2, tr1)"
    by (simp add: second_pass_def run_pass_def)
  with p1 show "(\<exists>arrs2. second_pass ext ev reg arrs = Inr (arrs2, tr1)) \<and>
     (\<forall>branch. branch_of (second_pass ext ev reg arrs) branch =
                branch_of (run_pass ext ev reg arrs) branch)"
    by (simp add: branch_of_def run_pass_def)
qed

theorem two_passes_same_records_witness:
  "(\<forall>xs. Sort example_externals beam_event (Sort example_externals beam_event xs) =
         Sort example_externals beam_event xs) \<and>
   set (sorted_arrays separate_registry) \<inter> set (unsorted_arrays separate_registry) = {} \<and>
   (\<exists>arrs1 tr1 arrs2.
      run_pass example_externals beam_event separate_registry example_arrays = Inr (arrs1, tr1) \<and>
      second_pass example_externals beam_event separate_registry example_arrays = Inr (arrs2, tr1) \<and>
      arrs1 ''photons'' = [1, 0] \<and> arrs1 ''particles'' = [0, 1])"
proof -
  have idem: "\<forall>xs. Sort example_externals beam_event (Sort example_externals beam_event xs) =
         Sort example_externals beam_event xs"
    by (simp add: example_sort_idem)
  have disj: "set (sorted_arrays separate_registry) \<inter> set (unsorted_arrays separate_registry) = {}"
    by (simp add: separate_registry_def sorted_arrays_def unsorted_arrays_def)
  obtain arrs1 tr1 where
    p1: "run_pass example_externals beam_event separate_registry example_arrays = Inr (arrs1, tr1)"
    and a1: "arrs1 ''photons'' = [1, 0] \<and> arrs1 ''particles'' = [0, 1]"
    by (simp add: run_pass_def separate_registry_def example_arrays_def ProcessParticles_def
        ProcessPhotons_def Let_def example_sort_beam)
  from idem disj p1
    two_passes_same_records [of example_externals beam_event separate_registry example_arrays arrs1 tr1]
  obtain arrs2 where
    "second_pass example_externals beam_event separate_registry example_arrays = Inr (arrs2, tr1)"
    by blast
  with idem disj p1 a1 show ?thesis by blast
qed

text \<open>
  A registry in which the particle branch and the photon branch read the same array: the
  first pass writes the particles in the order given and then sorts the array, the second
  pass writes them in sorted order.
\<close>

theorem shared_array_counterexample:
  "branch_of (second_pass example_externals beam_event shared_registry example_arrays) 0 \<noteq>
   branch_of (run_pass example_externals beam_event shared_registry example_arrays) 0"
proof -
  have p1: "run_pass example_externals beam_event shared_registry example_arrays =
     Inr (example_arrays(''photons'' := [1, 0]),
          (\<lambda>branch. [])
            (0 := map (\<lambda>r. EGenParticle (ProcessParticles_entry example_externals beam_event r)) [0, 1],
             1 := map (\<lambda>r. EPhoton (ProcessPhotons_entry example_externals beam_event r)) [1, 0]))"
    by (simp add: run_pass_def shared_registry_def example_arrays_def ProcessParticles_def
        ProcessPhotons_def Let_def example_sort_beam fun_upd_twist)
  have p2: "run_pass example_externals beam_event shared_registry (example_arrays(''photons'' := [1, 0])) =
     Inr (example_arrays(''photons'' := [1, 0]),
          (\<lambda>branch. [])
            (0 := map (\<lambda>r. EGenParticle (ProcessParticles_entry example_externals beam_event r)) [1, 0],
             1 := map (\<lambda>r. EPhoton (ProcessPhotons_entry example_externals beam_event r)) [1, 0]))"
    by (simp add: run_pass_def shared_registry_def example_arrays_def ProcessParticles_def
        ProcessPhotons_def Let_def example_sort_beam fun_upd_twist)
  from p1 p2 beam_entries_differ show ?thesis
    by (simp add: second_pass_def branch_of_def)
qed


end
